theory Spec2Isabelle
  imports Complex_Main "HOL-Library.Char_ord"
begin

section \<open>Python values\<close>

text \<open>Exceptions of the source are values: a function that can raise returns
  \<open>py_error + 'a\<close>, with \<open>Inl\<close> the exception that left it.\<close>

datatype py_error = KeyError | TypeError | ValueError | ParserError | AttributeError

text \<open>Calendar dates, as \<open>datetime.date\<close> has them: \<open>toordinal\<close> is the day number in
  the proleptic Gregorian calendar, and the difference of two dates in days is the
  difference of their ordinals.\<close>

record date =
  year :: int
  month :: int
  day :: int

definition is_leap :: "int \<Rightarrow> bool" where
  "is_leap y = (y mod 4 = 0 \<and> (y mod 100 \<noteq> 0 \<or> y mod 400 = 0))"

definition days_in_month :: "int \<Rightarrow> int \<Rightarrow> int" where
  "days_in_month y m =
     (if m = 2 then (if is_leap y then 29 else 28)
      else if m = 4 \<or> m = 6 \<or> m = 9 \<or> m = 11 then 30 else 31)"

definition days_before_year :: "int \<Rightarrow> int" where
  "days_before_year y = (let p = y - 1 in p * 365 + p div 4 - p div 100 + p div 400)"

definition days_before_month :: "int \<Rightarrow> int \<Rightarrow> int" where
  "days_before_month y m = sum_list (map (days_in_month y) [1 ..< nat m])"

definition toordinal :: "date \<Rightarrow> int" where
  "toordinal d = days_before_year (year d) + days_before_month (year d) (month d) + day d"

definition valid_date :: "date \<Rightarrow> bool" where
  "valid_date d = (1 \<le> year d \<and> year d \<le> 9999 \<and> 1 \<le> month d \<and> month d \<le> 12
                   \<and> 1 \<le> day d \<and> day d \<le> days_in_month (year d) (month d))"

text \<open>Strings are byte strings here, so the text functions below are the source's on
  ASCII input: \<open>str.lower\<close>, \<open>str.isspace\<close> and the regular-expression classes
  \<open>\w\<close> and \<open>\s\<close> are modelled for ASCII characters only.\<close>

definition lower_char :: "char \<Rightarrow> char" where
  "lower_char c =
     (if CHR ''A'' \<le> c \<and> c \<le> CHR ''Z'' then char_of (of_char c + (32::nat)) else c)"

definition lower :: "string \<Rightarrow> string" where
  "lower s = map lower_char s"

definition is_space :: "char \<Rightarrow> bool" where
  "is_space c = (let n = (of_char c :: nat) in (9 \<le> n \<and> n \<le> 13) \<or> (28 \<le> n \<and> n \<le> 32))"

definition is_word :: "char \<Rightarrow> bool" where
  "is_word c = ((CHR ''a'' \<le> c \<and> c \<le> CHR ''z'') \<or> (CHR ''A'' \<le> c \<and> c \<le> CHR ''Z'')
                \<or> (CHR ''0'' \<le> c \<and> c \<le> CHR ''9'') \<or> c = CHR ''_'')"

definition strip :: "string \<Rightarrow> string" where
  "strip s = rev (dropWhile is_space (rev (dropWhile is_space s)))"

text \<open>\<open>p in s\<close> on strings, and \<open>s.startswith(p)\<close>.\<close>

fun startswith :: "string \<Rightarrow> string \<Rightarrow> bool" where
  "startswith s [] = True"
| "startswith [] (p # ps) = False"
| "startswith (c # s) (p # ps) = (c = p \<and> startswith s ps)"

fun str_in :: "string \<Rightarrow> string \<Rightarrow> bool" where
  "str_in p [] = (p = [])"
| "str_in p (c # s) = (startswith (c # s) p \<or> str_in p s)"

text \<open>\<open>re.sub("[class]+", repl, s)\<close>: every maximal run of characters of the class is
  replaced by \<open>repl\<close>.\<close>

function sub_runs :: "(char \<Rightarrow> bool) \<Rightarrow> string \<Rightarrow> string \<Rightarrow> string" where
  "sub_runs P repl [] = []"
| "sub_runs P repl (c # cs) =
     (if P c then repl @ sub_runs P repl (dropWhile P cs) else c # sub_runs P repl cs)"
  by pat_completeness auto
termination
  by (relation "measure (\<lambda>(P, repl, s). length s)")
     (auto simp: length_dropWhile_le le_imp_less_Suc)

text \<open>\<open>s.replace(old, new)\<close> for a non-empty \<open>old\<close>: occurrences are replaced from the
  left and do not overlap.\<close>

function replace :: "string \<Rightarrow> string \<Rightarrow> string \<Rightarrow> string" where
  "replace old new [] = []"
| "replace old new (c # cs) =
     (if old \<noteq> [] \<and> startswith (c # cs) old
      then new @ replace old new (drop (length old - 1) cs)
      else c # replace old new cs)"
  by pat_completeness auto
termination
  by (relation "measure (\<lambda>(old, new, s). length s)") auto

text \<open>A word boundary \<open>\b\<close> after a match: the rest of the text is empty or begins with a
  character that is not a word character (every pattern below ends in a word character).\<close>

definition boundary_after :: "string \<Rightarrow> bool" where
  "boundary_after rest = (case rest of [] \<Rightarrow> True | d # _ \<Rightarrow> \<not> is_word d)"

text \<open>\<open>re.sub(r"\bword\b", "", t)\<close> and \<open>re.sub(r"\bbase\s*digit\b", base, t)\<close>. A
  matcher gives the number of characters the pattern takes at the head of the text; the
  scan remembers whether the character before is a word character, which decides the
  leading \<open>\b\<close> (every pattern begins with a word character).\<close>

definition match_word :: "string \<Rightarrow> string \<Rightarrow> nat option" where
  "match_word w s =
     (if startswith s w \<and> boundary_after (drop (length w) s) then Some (length w) else None)"

definition match_version :: "string \<Rightarrow> char \<Rightarrow> string \<Rightarrow> nat option" where
  "match_version base digit s =
     (if startswith s base then
        (case dropWhile is_space (drop (length base) s) of
           [] \<Rightarrow> None
         | d # rest \<Rightarrow>
             if d = digit \<and> boundary_after rest then Some (length s - length rest) else None)
      else None)"

function re_sub :: "(string \<Rightarrow> nat option) \<Rightarrow> string \<Rightarrow> bool \<Rightarrow> string \<Rightarrow> string" where
  "re_sub m repl prev_word [] = []"
| "re_sub m repl prev_word (c # cs) =
     (case (if prev_word then None else m (c # cs)) of
        Some n \<Rightarrow> repl @ re_sub m repl True (drop (n - 1) cs)
      | None \<Rightarrow> c # re_sub m repl (is_word c) cs)"
  by pat_completeness auto
termination
  by (relation "measure (\<lambda>(m, repl, p, s). length s)") auto

section \<open>Text canonicalisation (Shared/normalizer.py)\<close>

definition normalize_text :: "string \<Rightarrow> string" where
  "normalize_text text =
     (if text = [] then []
      else let t1 = strip (lower text);
               t2 = map (\<lambda>c. if is_word c \<or> is_space c \<or> c = CHR ''.'' \<or> c = CHR ''+''
                                 \<or> c = CHR ''#'' then c else CHR '' '') t1
           in sub_runs is_space '' '' t2)"

definition normalize_skill_text2 :: "string \<Rightarrow> string" where
  "normalize_skill_text2 text =
     (if text = [] then []
      else let t = strip (lower text);
               t = filter (\<lambda>c. c \<noteq> CHR ''.'') t;
               t = sub_runs (\<lambda>c. c = CHR ''_'' \<or> c = CHR ''-'' \<or> c = CHR ''/'') '' '' t;
               t = re_sub (match_word ''programming'') [] False t;
               t = re_sub (match_word ''language'') [] False t;
               t = re_sub (match_word ''framework'') [] False t;
               t = re_sub (match_version ''html'' CHR ''5'') ''html'' False t;
               t = re_sub (match_version ''css'' CHR ''3'') ''css'' False t;
               t = replace ''c sharp'' ''c#'' t;
               t = replace ''csharp'' ''c#'' t
           in strip (sub_runs is_space '' '' t))"

text \<open>\<open>tokenize_text\<close>: \<open>set(re.findall(r"\b[a-z0-9\+#\.]+\b", text.lower()))\<close>. A match
  begins at a word boundary and is the longest run of class characters that ends at a
  word boundary (the greedy \<open>+\<close> backs off until the trailing \<open>\b\<close> holds).\<close>

definition tok_char :: "char \<Rightarrow> bool" where
  "tok_char c = ((CHR ''a'' \<le> c \<and> c \<le> CHR ''z'') \<or> (CHR ''0'' \<le> c \<and> c \<le> CHR ''9'')
                 \<or> c = CHR ''+'' \<or> c = CHR ''#'' \<or> c = CHR ''.'')"

definition end_boundary :: "string \<Rightarrow> nat \<Rightarrow> bool" where
  "end_boundary s k = (is_word (s ! (k - 1)) \<noteq> (k < length s \<and> is_word (s ! k)))"

definition longest_token_end :: "string \<Rightarrow> nat option" where
  "longest_token_end s =
     find (end_boundary s) (rev [1 ..< Suc (length (takeWhile tok_char s))])"

function findall_tokens :: "bool \<Rightarrow> string \<Rightarrow> string list" where
  "findall_tokens prev_word [] = []"
| "findall_tokens prev_word (c # cs) =
     (if tok_char c \<and> (is_word c \<noteq> prev_word) then
        (case longest_token_end (c # cs) of
           Some k \<Rightarrow> take k (c # cs) # findall_tokens (is_word ((c # cs) ! (k - 1))) (drop (k - 1) cs)
         | None \<Rightarrow> findall_tokens (is_word c) cs)
      else findall_tokens (is_word c) cs)"
  by pat_completeness auto
termination
  by (relation "measure (\<lambda>(p, s). length s)") auto

definition tokenize_text :: "string \<Rightarrow> string list" where
  "tokenize_text text = remdups (findall_tokens False (lower text))"

section \<open>Master skills and the skill matcher (Shared/normalizer.py)\<close>

text \<open>A text column that the code decodes with \<open>json.loads\<close>: \<open>Absent\<close> is a value the
  code's \<open>if not raw\<close> test rejects (NULL or the empty string), \<open>Malformed\<close> is text on
  which \<open>json.loads\<close> raises, \<open>Parsed\<close> carries the decoded value. The decoded value has
  the shape of the data model: a list of strings for aliases and tokens, an object from
  rule names to lists of phrases for the disambiguation rules (its items, one per key).\<close>

datatype 'a json_text = Absent | Malformed | Parsed 'a

record MasterSkill =
  SkillID :: int
  SkillName :: string
  SkillCode :: string
  Tokens :: "string list json_text"
  ParentSkillId :: "int option"
  Aliases :: "string list json_text"
  DisambiguationRules :: "(string \<times> string list) list json_text"
  SkillType :: string
  Category :: string

text \<open>\<open>rules.get(key, [])\<close>.\<close>

definition rules_get :: "(string \<times> string list) list \<Rightarrow> string \<Rightarrow> string list" where
  "rules_get rules key = (case map_of rules key of None \<Rightarrow> [] | Some phrases \<Rightarrow> phrases)"

definition passes_disambiguation :: "MasterSkill \<Rightarrow> string \<Rightarrow> string \<Rightarrow> bool" where
  "passes_disambiguation skill normalized context =
     (case DisambiguationRules skill of
        Absent \<Rightarrow> True
      | Malformed \<Rightarrow> True
      | Parsed rules \<Rightarrow>
          (let combined = lower (normalized @ '' '' @ context) in
           if list_ex (\<lambda>blocked. str_in (lower blocked) combined)
                (rules_get rules ''block_if_contains'')
           then False
           else (let allow_list = rules_get rules ''allow_if_contains'' in
                 if allow_list \<noteq> []
                 then list_ex (\<lambda>a. str_in (lower a) combined) allow_list
                 else True)))"

text \<open>The matcher returns the tuple
  \<open>(SkillID, SkillCode, SkillType, confidence, method)\<close>.\<close>

type_synonym match_result = "int option \<times> string option \<times> string option \<times> real \<times> string"

definition no_result :: "string \<Rightarrow> match_result" where
  "no_result method = (None, None, None, 0.0, method)"

definition matched :: "MasterSkill \<Rightarrow> real \<Rightarrow> string \<Rightarrow> match_result" where
  "matched skill confidence method =
     (Some (SkillID skill), Some (SkillCode skill), Some (SkillType skill), confidence, method)"

text \<open>After a positive match on \<open>skill\<close>: the disambiguation guard, then the result.\<close>

definition guarded :: "MasterSkill \<Rightarrow> string \<Rightarrow> string \<Rightarrow> real \<Rightarrow> string \<Rightarrow> match_result" where
  "guarded skill normalized context confidence method =
     (if \<not> passes_disambiguation skill normalized context
      then no_result ''disambiguation_blocked''
      else matched skill confidence method)"

text \<open>The three loops over \<open>master_skills\<close>. Each returns at its first positive match;
  \<open>None\<close> means the loop ran to its end.\<close>

fun exact_loop :: "string \<Rightarrow> string \<Rightarrow> MasterSkill list \<Rightarrow> match_result option" where
  "exact_loop normalized context [] = None"
| "exact_loop normalized context (skill # rest) =
     (if normalize_skill_text2 (normalize_text (SkillName skill)) = normalized
      then Some (guarded skill normalized context 1.00 ''exact'')
      else exact_loop normalized context rest)"

fun alias_loop :: "string \<Rightarrow> string \<Rightarrow> MasterSkill list \<Rightarrow> match_result option" where
  "alias_loop normalized context [] = None"
| "alias_loop normalized context (skill # rest) =
     (case Aliases skill of
        Absent \<Rightarrow> alias_loop normalized context rest
      | Malformed \<Rightarrow> alias_loop normalized context rest
      | Parsed aliases \<Rightarrow>
          if list_ex (\<lambda>alias. normalize_skill_text2 (normalize_text alias) = normalized) aliases
          then Some (guarded skill normalized context 0.95 ''alias'')
          else alias_loop normalized context rest)"

fun rule_loop :: "string \<Rightarrow> string \<Rightarrow> MasterSkill list \<Rightarrow> match_result option" where
  "rule_loop normalized context [] = None"
| "rule_loop normalized context (skill # rest) =
     (case Tokens skill of
        Absent \<Rightarrow> rule_loop normalized context rest
      | Malformed \<Rightarrow> rule_loop normalized context rest
      | Parsed tokens \<Rightarrow>
          (let normalized_tokens = tokenize_text normalized in
           if list_ex (\<lambda>tok. length tok = 1) tokens \<and> length normalized_tokens > 1
           then rule_loop normalized context rest
           else if list_all (\<lambda>tok. lower tok \<in> set normalized_tokens) tokens
           then Some (guarded skill normalized context 0.90 ''rule'')
           else rule_loop normalized context rest))"

text \<open>\<open>cosine_similarity\<close> (Shared/vector.py) on vectors of reals; \<open>np.dot\<close> raises
  \<open>ValueError\<close> on vectors of different lengths. A zero norm gives \<open>nan\<close> in the source
  and 0 here: neither is ever greater than the running best score.\<close>

definition dot :: "real list \<Rightarrow> real list \<Rightarrow> real" where
  "dot a b = sum_list (map2 (*) a b)"

definition cosine_similarity :: "real list \<Rightarrow> real list \<Rightarrow> py_error + real" where
  "cosine_similarity a b =
     (if length a \<noteq> length b then Inl ValueError
      else Inr (dot a b / (sqrt (dot a a) * sqrt (dot b b))))"

text \<open>An entry of the vector index is any object with an \<open>embedding\<close>; the matcher
  reads its \<open>skill_ref\<close> only when the entry is accepted. \<open>skill_ref = None\<close> is an entry
  without that attribute (a database row of the master table has none): reading it raises
  \<open>AttributeError\<close>.\<close>

record VectorEntry =
  embedding :: "real list"
  skill_ref :: "MasterSkill option"

text \<open>The scan of the vector index: \<open>best_skill\<close> and \<open>best_score\<close> start at \<open>None\<close> and
  \<open>0.0\<close>, and an entry replaces them only with a strictly greater score.\<close>

fun vector_scan ::
  "real list \<Rightarrow> VectorEntry list \<Rightarrow> VectorEntry option \<times> real
     \<Rightarrow> py_error + (VectorEntry option \<times> real)" where
  "vector_scan query_vec [] best = Inr best"
| "vector_scan query_vec (entry # rest) (best_skill, best_score) =
     (case cosine_similarity query_vec (embedding entry) of
        Inl e \<Rightarrow> Inl e
      | Inr score \<Rightarrow>
          vector_scan query_vec rest
            (if score > best_score then (Some entry, score) else (best_skill, best_score)))"

text \<open>Python's \<open>round(x, n)\<close> on a real: to the nearest multiple of \<open>10\<^sup>-\<^sup>n\<close>, a tie
  going to the even one.\<close>

definition round_half_even :: "real \<Rightarrow> int" where
  "round_half_even x =
     (let f = \<lfloor>x\<rfloor>; d = x - of_int f in
      if d < 1/2 then f else if d > 1/2 then f + 1 else if even f then f else f + 1)"

definition py_round :: "real \<Rightarrow> nat \<Rightarrow> real" where
  "py_round x n = of_int (round_half_even (x * 10 ^ n)) / 10 ^ n"

text \<open>\<open>embed_fn\<close> is \<open>None\<close> when the caller passes no embedding function. The parameter
  \<open>allow_implicit\<close> of the source is never read and is left out.\<close>

definition normalize_and_match_skill ::
  "string \<Rightarrow> MasterSkill list \<Rightarrow> VectorEntry list \<Rightarrow> (string \<Rightarrow> real list) option
     \<Rightarrow> string \<Rightarrow> py_error + match_result" where
  "normalize_and_match_skill raw_name master_skills vector_index embed_fn context_text =
     (let normalized = normalize_skill_text2 (normalize_text raw_name) in
      if normalized = [] then Inr (no_result ''empty'')
      else
        let context = normalize_text context_text in
        case exact_loop normalized context master_skills of
          Some r \<Rightarrow> Inr r
        | None \<Rightarrow>
        (case alias_loop normalized context master_skills of
          Some r \<Rightarrow> Inr r
        | None \<Rightarrow>
        (case rule_loop normalized context master_skills of
          Some r \<Rightarrow> Inr r
        | None \<Rightarrow>
        (case (if vector_index \<noteq> [] then embed_fn else None) of
          None \<Rightarrow> Inr (no_result ''no_match'')
        | Some embed_f \<Rightarrow>
            (case vector_scan (embed_f normalized) vector_index (None, 0.0) of
               Inl e \<Rightarrow> Inl e
             | Inr (best_skill, best_score) \<Rightarrow>
                 (case best_skill of
                    Some entry \<Rightarrow>
                      if best_score \<ge> 0.92
                      then (case skill_ref entry of
                              None \<Rightarrow> Inl AttributeError
                            | Some skill \<Rightarrow>
                                Inr (guarded skill normalized context
                                       (py_round best_score 3) ''vector''))
                      else Inr (no_result ''no_match'')
                  | None \<Rightarrow> Inr (no_result ''no_match'')))))))"


subsection \<open>Substrings survive canonicalisation\<close>















subsection \<open>The tiers of the matcher, as the specification words them\<close>

text \<open>\<open>first_hit hit xs x\<close>: \<open>x\<close> is the first element of \<open>xs\<close> that satisfies \<open>hit\<close>.
  The three predicates after it are the specification's conditions for an exact, an alias
  and a token match of the canonical mention \<open>n\<close> against a master skill.\<close>

definition first_hit :: "('a \<Rightarrow> bool) \<Rightarrow> 'a list \<Rightarrow> 'a \<Rightarrow> bool" where
  "first_hit hit xs x = (\<exists>pre post. xs = pre @ x # post \<and> hit x \<and> list_all (\<lambda>y. \<not> hit y) pre)"

definition spec_exact :: "string \<Rightarrow> MasterSkill \<Rightarrow> bool" where
  "spec_exact n s = (normalize_skill_text2 (normalize_text (SkillName s)) = n)"

definition spec_alias :: "string \<Rightarrow> MasterSkill \<Rightarrow> bool" where
  "spec_alias n s =
     (case Aliases s of
        Parsed aliases \<Rightarrow> n \<in> set (map (\<lambda>a. normalize_skill_text2 (normalize_text a)) aliases)
      | _ \<Rightarrow> False)"

definition spec_rule :: "string \<Rightarrow> MasterSkill \<Rightarrow> bool" where
  "spec_rule n s =
     (case Tokens s of
        Parsed T \<Rightarrow>
          set (map lower T) \<subseteq> set (tokenize_text n)
          \<and> (1 \<in> set (map length T) \<longrightarrow> length (tokenize_text n) \<le> 1)
      | _ \<Rightarrow> False)"

lemma first_hit_none: "list_all (\<lambda>y. \<not> hit y) xs \<Longrightarrow> \<not> first_hit hit xs x"
  by (auto simp: first_hit_def list_all_iff)

lemma first_hit_Cons:
  "first_hit hit (y # ys) x \<longleftrightarrow> (hit y \<and> x = y) \<or> (\<not> hit y \<and> first_hit hit ys x)"
proof
  assume "first_hit hit (y # ys) x"
  then obtain pre post where p: "y # ys = pre @ x # post" "hit x" "list_all (\<lambda>y. \<not> hit y) pre"
    by (auto simp: first_hit_def)
  show "(hit y \<and> x = y) \<or> (\<not> hit y \<and> first_hit hit ys x)"
  proof (cases pre)
    case Nil
    with p show ?thesis by simp
  next
    case (Cons a pre')
    with p have "ys = pre' @ x # post" "\<not> hit y" "list_all (\<lambda>y. \<not> hit y) pre'" by auto
    with p(2) show ?thesis unfolding first_hit_def by blast
  qed
next
  assume "(hit y \<and> x = y) \<or> (\<not> hit y \<and> first_hit hit ys x)"
  then show "first_hit hit (y # ys) x"
  proof
    assume "hit y \<and> x = y"
    then have "y # ys = [] @ x # ys \<and> hit x \<and> list_all (\<lambda>y. \<not> hit y) []" by simp
    then show ?thesis unfolding first_hit_def by blast
  next
    assume a: "\<not> hit y \<and> first_hit hit ys x"
    then obtain pre post where "ys = pre @ x # post" "hit x" "list_all (\<lambda>y. \<not> hit y) pre"
      by (auto simp: first_hit_def)
    with a have "y # ys = (y # pre) @ x # post \<and> hit x \<and> list_all (\<lambda>y. \<not> hit y) (y # pre)"
      by simp
    then show ?thesis unfolding first_hit_def by blast
  qed
qed

lemma exact_loop_first:
  "first_hit (spec_exact n) ms s \<Longrightarrow> exact_loop n c ms = Some (guarded s n c 1.00 ''exact'')"
proof (induction ms)
  case Nil
  then show ?case by (simp add: first_hit_def)
next
  case (Cons y ys)
  show ?case
  proof (cases "spec_exact n y")
    case True
    with Cons.prems have "s = y" by (simp add: first_hit_Cons)
    with True show ?thesis by (simp add: spec_exact_def)
  next
    case False
    with Cons.prems have "first_hit (spec_exact n) ys s" by (simp add: first_hit_Cons)
    with Cons.IH have "exact_loop n c ys = Some (guarded s n c 1.00 ''exact'')" by simp
    with False show ?thesis by (simp add: spec_exact_def)
  qed
qed

lemma exact_loop_none:
  "list_all (\<lambda>s. \<not> spec_exact n s) ms \<Longrightarrow> exact_loop n c ms = None"
  by (induction ms) (auto simp: spec_exact_def)

lemma alias_step:
  "spec_alias n s \<longleftrightarrow>
     (\<exists>aliases. Aliases s = Parsed aliases \<and>
        list_ex (\<lambda>alias. normalize_skill_text2 (normalize_text alias) = n) aliases)"
  by (auto simp: spec_alias_def list_ex_iff split: json_text.splits)

lemma alias_loop_first:
  "first_hit (spec_alias n) ms s \<Longrightarrow> alias_loop n c ms = Some (guarded s n c 0.95 ''alias'')"
proof (induction ms)
  case Nil
  then show ?case by (simp add: first_hit_def)
next
  case (Cons y ys)
  then show ?case
    by (cases "Aliases y") (auto simp: first_hit_Cons alias_step)
qed

lemma alias_loop_none:
  "list_all (\<lambda>s. \<not> spec_alias n s) ms \<Longrightarrow> alias_loop n c ms = None"
proof (induction ms)
  case Nil
  then show ?case by simp
next
  case (Cons y ys)
  then show ?case by (cases "Aliases y") (auto simp: alias_step)
qed

lemma rule_step:
  "spec_rule n s \<longleftrightarrow>
     (\<exists>tokens. Tokens s = Parsed tokens
        \<and> \<not> (list_ex (\<lambda>tok. length tok = 1) tokens \<and> length (tokenize_text n) > 1)
        \<and> list_all (\<lambda>tok. lower tok \<in> set (tokenize_text n)) tokens)"
  by (cases "Tokens s")
     (auto simp: spec_rule_def list_ex_iff list_all_iff image_iff eq_commute [of "Suc 0"])


lemma rule_loop_none:
  "list_all (\<lambda>s. \<not> spec_rule n s) ms \<Longrightarrow> rule_loop n c ms = None"
proof (induction ms)
  case Nil
  then show ?case by simp
next
  case (Cons y ys)
  then show ?case by (cases "Tokens y") (auto simp: rule_step Let_def)
qed


lemma vector_scan_total:
  "list_all (\<lambda>e. length (embedding e) = length q) vi \<Longrightarrow> \<exists>r. vector_scan q vi best = Inr r"
proof (induction vi arbitrary: best)
  case Nil
  then show ?case by simp
next
  case (Cons e vi)
  then show ?case by (cases best) (auto simp: cosine_similarity_def)
qed









subsection \<open>Disambiguation\<close>






definition language_java :: MasterSkill where
  "language_java =
     \<lparr>SkillID = 1, SkillName = ''Java'', SkillCode = ''language_java'', Tokens = Absent,
      ParentSkillId = None, Aliases = Absent,
      DisambiguationRules = Parsed [(''block_if_contains'', [''javascript''])],
      SkillType = ''programming'', Category = ''Programming Language''\<rparr>"





subsection \<open>Order of the tiers\<close>






definition framework_react :: MasterSkill where
  "framework_react =
     \<lparr>SkillID = 2, SkillName = ''React'', SkillCode = ''framework_react'',
      Tokens = Parsed [''react''], ParentSkillId = None,
      Aliases = Parsed [''ReactJS'', ''React.js''], DisambiguationRules = Absent,
      SkillType = ''framework'', Category = ''Frontend Framework''\<rparr>"


lemma first_hit_Nil: "\<not> first_hit hit [] x"
  by (simp add: first_hit_def)




section \<open>Job description schema (Employer/schemas/LLMResponse.py)\<close>

datatype RequirementLevel = hard | soft

datatype SkillSource = explicit | inferred

datatype SkillTypeHint =
  programming | framework | cloud | database | tool | platform | methodology | other

datatype ExpectedEvidence = resume_skill | experience_role | project | implicit

datatype SeniorityLevel = Junior | Mid | Senior | Lead

datatype PrimaryDomain =
  Web | Cloud | AI | Data | Mobile | DevOps | Security | Enterprise | Frontend
  | Fullstack | QA | Backend | General

record SkillRequirement =
  raw_skill :: string
  source :: SkillSource
  requirement_level :: RequirementLevel
  skill_type_hint :: SkillTypeHint
  min_months :: "int option"
  skill_group_id :: "string option"
  expected_evidence :: ExpectedEvidence

record CategoryRequirement =
  group_id :: string
  category :: string
  min_required :: int
  example_skills :: "string list"
  cat_requirement_level :: RequirementLevel
  cat_source :: SkillSource

text \<open>\<open>Requirement = Union[SkillRequirement, CategoryRequirement]\<close>; the code tells the
  two apart with \<open>isinstance\<close>.\<close>

datatype Requirement = SkillReq SkillRequirement | CategoryReq CategoryRequirement

fun level_of :: "Requirement \<Rightarrow> RequirementLevel" where
  "level_of (SkillReq s) = requirement_level s"
| "level_of (CategoryReq c) = cat_requirement_level c"

record JobMetadata =
  primary_domain :: PrimaryDomain
  seniority_level :: SeniorityLevel

record JobSkillProfile =
  role_context :: string
  job_metadata :: JobMetadata
  requirements :: "Requirement list"


section \<open>JD post-processor (Employer/PostProcessor.py)\<close>

text \<open>The body of the \<open>for req in jd.requirements\<close> loop. The three \<open>if\<close> statements on a
  skill requirement run one after the other on the same object, so each sees the
  assignments of the one before.\<close>

fun clean_requirement :: "Requirement \<Rightarrow> Requirement" where
  "clean_requirement (CategoryReq req) =
     CategoryReq (if min_required req < 1 then req\<lparr>min_required := 1\<rparr> else req)"
| "clean_requirement (SkillReq skill) =
     (let s1 = (if min_months skill = None then skill\<lparr>min_months := Some 0\<rparr> else skill);
          s2 = (if skill_type_hint s1 = methodology
                then s1\<lparr>min_months := Some 0, expected_evidence := implicit\<rparr> else s1);
          s3 = (if skill_type_hint s2 = tool \<and> requirement_level s2 = hard
                then s2\<lparr>requirement_level := soft, expected_evidence := project\<rparr> else s2)
      in SkillReq s3)"

text \<open>The loop itself: \<open>cleaned_requirements\<close> starts empty and every iteration appends.\<close>

fun clean_loop :: "Requirement list \<Rightarrow> Requirement list \<Rightarrow> Requirement list" where
  "clean_loop cleaned_requirements [] = cleaned_requirements"
| "clean_loop cleaned_requirements (req # rest) =
     clean_loop (cleaned_requirements @ [clean_requirement req]) rest"

definition post_process_jd_profile :: "JobSkillProfile \<Rightarrow> JobSkillProfile" where
  "post_process_jd_profile jd = jd\<lparr>requirements := clean_loop [] (requirements jd)\<rparr>"

lemma clean_loop_map: "clean_loop acc rs = acc @ map clean_requirement rs"
  by (induction rs arbitrary: acc) simp_all

lemma post_process_requirements:
  "requirements (post_process_jd_profile jd) = map clean_requirement (requirements jd)"
  by (simp add: post_process_jd_profile_def clean_loop_map)

text \<open>What the specification says a cleaned requirement is, field by field.\<close>

definition spec_clean_skill :: "SkillRequirement \<Rightarrow> SkillRequirement" where
  "spec_clean_skill s =
     s\<lparr>min_months :=
          Some (if skill_type_hint s = methodology then 0
                else (case min_months s of None \<Rightarrow> 0 | Some m \<Rightarrow> m)),
       requirement_level :=
          (if skill_type_hint s = tool \<and> requirement_level s = hard then soft
           else requirement_level s),
       expected_evidence :=
          (if skill_type_hint s = methodology then implicit
           else if skill_type_hint s = tool \<and> requirement_level s = hard then project
           else expected_evidence s)\<rparr>"

definition spec_clean_category :: "CategoryRequirement \<Rightarrow> CategoryRequirement" where
  "spec_clean_category c = c\<lparr>min_required := max 1 (min_required c)\<rparr>"

lemma clean_requirement_skill: "clean_requirement (SkillReq s) = SkillReq (spec_clean_skill s)"
  by (cases "min_months s") (auto simp: spec_clean_skill_def Let_def)

lemma clean_requirement_category:
  "clean_requirement (CategoryReq c) = CategoryReq (spec_clean_category c)"
  by (simp add: spec_clean_category_def max_def)

text \<open>A profile with a hard tool, a methodology with a duration and a category with
  \<open>min_required = 0\<close>.\<close>

definition jd_tooling :: JobSkillProfile where
  "jd_tooling =
     \<lparr>role_context = ''Backend engineer for a payments platform'',
      job_metadata = \<lparr>primary_domain = Backend, seniority_level = Mid\<rparr>,
      requirements =
        [SkillReq \<lparr>raw_skill = ''Docker'', source = explicit, requirement_level = hard,
                skill_type_hint = tool, min_months = None, skill_group_id = None,
                expected_evidence = resume_skill\<rparr>,
         SkillReq \<lparr>raw_skill = ''Scrum'', source = inferred, requirement_level = hard,
                skill_type_hint = methodology, min_months = Some 24, skill_group_id = None,
                expected_evidence = experience_role\<rparr>,
         CategoryReq \<lparr>group_id = ''grp_frontend'', category = ''Frontend Framework'',
                   min_required = 0, example_skills = [''React''],
                   cat_requirement_level = hard, cat_source = explicit\<rparr>]\<rparr>"

text \<open>
  C8. The post-processor returns a profile with the same role context and metadata and
  with as many requirements as it was given, in the same order: the requirement at every
  position is the input requirement at that position, of the same kind, with only these
  fields normalised. A skill requirement gets \<open>min_months\<close> 0 where it was null or the
  hint is methodology, \<open>expected_evidence\<close> implicit for a methodology, and a hard tool
  becomes soft with \<open>expected_evidence\<close> project; every other field is kept. A category
  requirement gets \<open>min_required\<close> raised to at least 1 and is otherwise kept.
\<close>

theorem post_process_jd_profile_normalizes_only:
  "length (requirements (post_process_jd_profile jd)) = length (requirements jd)
   \<and> role_context (post_process_jd_profile jd) = role_context jd
   \<and> job_metadata (post_process_jd_profile jd) = job_metadata jd
   \<and> (\<forall>i < length (requirements jd).
         (case requirements jd ! i of
            SkillReq s \<Rightarrow>
              requirements (post_process_jd_profile jd) ! i = SkillReq (spec_clean_skill s)
          | CategoryReq c \<Rightarrow>
              requirements (post_process_jd_profile jd) ! i =
                CategoryReq (spec_clean_category c)))"
proof -
  have "role_context (post_process_jd_profile jd) = role_context jd"
    and "job_metadata (post_process_jd_profile jd) = job_metadata jd"
    by (simp_all add: post_process_jd_profile_def)
  then show ?thesis
    by (auto simp: post_process_requirements clean_requirement_skill
          clean_requirement_category simp del: clean_requirement.simps
          split: Requirement.split)
qed

theorem post_process_jd_profile_normalizes_only_witness:
  "length (requirements (post_process_jd_profile jd_tooling)) = 3
   \<and> requirements (post_process_jd_profile jd_tooling) ! 0 =
        SkillReq \<lparr>raw_skill = ''Docker'', source = explicit, requirement_level = soft,
               skill_type_hint = tool, min_months = Some 0, skill_group_id = None,
               expected_evidence = project\<rparr>
   \<and> requirements (post_process_jd_profile jd_tooling) ! 1 =
        SkillReq \<lparr>raw_skill = ''Scrum'', source = inferred, requirement_level = hard,
               skill_type_hint = methodology, min_months = Some 0, skill_group_id = None,
               expected_evidence = implicit\<rparr>
   \<and> requirements (post_process_jd_profile jd_tooling) ! 2 =
        CategoryReq \<lparr>group_id = ''grp_frontend'', category = ''Frontend Framework'',
                  min_required = 1, example_skills = [''React''],
                  cat_requirement_level = hard, cat_source = explicit\<rparr>"
proof -
  note t = post_process_jd_profile_normalizes_only [of jd_tooling]
  have len: "length (requirements jd_tooling) = 3"
    by (simp add: jd_tooling_def)
  from t have step: "i < length (requirements jd_tooling) \<Longrightarrow>
         (case requirements jd_tooling ! i of
            SkillReq s \<Rightarrow>
              requirements (post_process_jd_profile jd_tooling) ! i = SkillReq (spec_clean_skill s)
          | CategoryReq c \<Rightarrow>
              requirements (post_process_jd_profile jd_tooling) ! i =
                CategoryReq (spec_clean_category c))" for i
    by blast
  have r0: "requirements (post_process_jd_profile jd_tooling) ! 0 =
        SkillReq (spec_clean_skill \<lparr>raw_skill = ''Docker'', source = explicit,
               requirement_level = hard, skill_type_hint = tool, min_months = None,
               skill_group_id = None, expected_evidence = resume_skill\<rparr>)"
    using step [of 0] by (simp add: jd_tooling_def)
  have r1: "requirements (post_process_jd_profile jd_tooling) ! 1 =
        SkillReq (spec_clean_skill \<lparr>raw_skill = ''Scrum'', source = inferred,
               requirement_level = hard, skill_type_hint = methodology, min_months = Some 24,
               skill_group_id = None, expected_evidence = experience_role\<rparr>)"
    using step [of 1] by (simp add: jd_tooling_def)
  have r2: "requirements (post_process_jd_profile jd_tooling) ! 2 =
        CategoryReq (spec_clean_category \<lparr>group_id = ''grp_frontend'',
                  category = ''Frontend Framework'', min_required = 0,
                  example_skills = [''React''], cat_requirement_level = hard,
                  cat_source = explicit\<rparr>)"
    using step [of 2] by (simp add: jd_tooling_def)
  from t len r0 r1 r2 show ?thesis
    by (simp add: spec_clean_skill_def spec_clean_category_def)
qed

section \<open>Eligibility gate (Employer/MatchingEngine.py)\<close>

text \<open>The tables the engine reads. A row of \<open>CandidateSkills\<close> carries the columns the
  queries name; \<open>LastUsedDate\<close> is NULL (\<open>None\<close>) for a skill that no dated mention
  reached, and a comparison with NULL selects no row.\<close>

record CandidateSkillRow =
  CandidateID :: int
  MasterSkillID :: int
  TotalMonths :: int
  MidMonths :: int
  SeniorMonths :: int
  MaxEvidenceStrength :: int
  LastUsedDate :: "date option"
  NormalizationMethod :: string

record RoleSkillTypeWeight =
  PrimaryDomain_col :: string
  SeniorityLevel_col :: string
  SkillType_col :: string
  WeightMultiplier :: real

record Store =
  MasterSkills :: "MasterSkill list"
  SkillImplications :: "(string \<times> string) list"
  CandidateSkills :: "CandidateSkillRow list"
  RoleSkillTypeWeights :: "RoleSkillTypeWeight list"
  Candidates :: "(int \<times> string) list"

text \<open>What the engine holds from its construction: the master list, the vector index and
  the embedding function it passes to the matcher.\<close>

record Engine =
  master_skill_list :: "MasterSkill list"
  vector_index :: "VectorEntry list"
  get_embedding_cached :: "string \<Rightarrow> real list"

record thresholds =
  min_total_months :: int
  min_mid_months :: int
  min_senior_months :: int

fun SENIORITY_THRESHOLDS :: "SeniorityLevel \<Rightarrow> thresholds" where
  "SENIORITY_THRESHOLDS Junior =
     \<lparr>min_total_months = 6, min_mid_months = 0, min_senior_months = 0\<rparr>"
| "SENIORITY_THRESHOLDS Mid =
     \<lparr>min_total_months = 18, min_mid_months = 12, min_senior_months = 0\<rparr>"
| "SENIORITY_THRESHOLDS Senior =
     \<lparr>min_total_months = 36, min_mid_months = 24, min_senior_months = 12\<rparr>"
| "SENIORITY_THRESHOLDS Lead =
     \<lparr>min_total_months = 60, min_mid_months = 36, min_senior_months = 24\<rparr>"

definition RECENCY_MONTHS_LIMIT :: int where
  "RECENCY_MONTHS_LIMIT = 36"

text \<open>\<open>_resolve_skill_tree\<close>: the recursive query starts from the rows with the given code
  and adds, level by level, the rows whose parent is in the level before. The taxonomy is
  acyclic, so no level beyond the number of rows has a row; the levels are cut there.\<close>

definition child_ids :: "MasterSkill list \<Rightarrow> int list \<Rightarrow> int list" where
  "child_ids ms ids =
     map SkillID
       (filter (\<lambda>m. case ParentSkillId m of None \<Rightarrow> False | Some p \<Rightarrow> p \<in> set ids) ms)"

fun skill_tree_levels :: "nat \<Rightarrow> MasterSkill list \<Rightarrow> int list \<Rightarrow> int list" where
  "skill_tree_levels 0 ms level = level"
| "skill_tree_levels (Suc k) ms level =
     (if level = [] then [] else level @ skill_tree_levels k ms (child_ids ms level))"

definition resolve_skill_tree :: "Store \<Rightarrow> string \<Rightarrow> int set" where
  "resolve_skill_tree store root_skill_code =
     set (skill_tree_levels (length (MasterSkills store)) (MasterSkills store)
            (map SkillID (filter (\<lambda>m. SkillCode m = root_skill_code) (MasterSkills store))))"

definition resolve_implied_skills :: "Store \<Rightarrow> string \<Rightarrow> int set" where
  "resolve_implied_skills store skill_code =
     set (concat (map (\<lambda>(from_code, to_code).
                    if from_code = skill_code
                    then map SkillID (filter (\<lambda>m. SkillCode m = to_code) (MasterSkills store))
                    else [])
                  (SkillImplications store)))"

definition get_required_evidence_strength :: "RequirementLevel \<Rightarrow> int" where
  "get_required_evidence_strength level = (if level = hard then 2 else 1)"

text \<open>The filters both queries share: seniority months and recency.\<close>

definition seniority_recency_ok :: "thresholds \<Rightarrow> int \<Rightarrow> CandidateSkillRow \<Rightarrow> bool" where
  "seniority_recency_ok th recency_cutoff cs =
     (MidMonths cs \<ge> min_mid_months th \<and> SeniorMonths cs \<ge> min_senior_months th
      \<and> (case LastUsedDate cs of None \<Rightarrow> False | Some d \<Rightarrow> toordinal d \<ge> recency_cutoff))"

text \<open>The query of a skill requirement. \<open>min_months\<close> may still be NULL when the profile
  was not post-processed; \<open>TotalMonths >= NULL\<close> holds for no row.\<close>

definition skill_query ::
  "Store \<Rightarrow> int set \<Rightarrow> int option \<Rightarrow> int \<Rightarrow> thresholds \<Rightarrow> int \<Rightarrow> int set" where
  "skill_query store acceptable_skill_ids min_months_p required_strength th recency_cutoff =
     set (map CandidateID
       (filter (\<lambda>cs. MasterSkillID cs \<in> acceptable_skill_ids
                    \<and> ((case min_months_p of None \<Rightarrow> False | Some m \<Rightarrow> TotalMonths cs \<ge> m)
                         \<or> MaxEvidenceStrength cs \<ge> required_strength)
                    \<and> seniority_recency_ok th recency_cutoff cs)
          (CandidateSkills store)))"

text \<open>The query of a category requirement: the candidates with at least
  \<open>min_required\<close> distinct qualifying skills of the category.\<close>

definition category_rows ::
  "Store \<Rightarrow> string \<Rightarrow> int \<Rightarrow> thresholds \<Rightarrow> int \<Rightarrow> CandidateSkillRow list" where
  "category_rows store cat required_strength th recency_cutoff =
     filter (\<lambda>cs. list_ex (\<lambda>m. SkillID m = MasterSkillID cs \<and> Category m = cat)
                       (MasterSkills store)
                  \<and> (TotalMonths cs > 0 \<or> MaxEvidenceStrength cs \<ge> required_strength)
                  \<and> seniority_recency_ok th recency_cutoff cs)
       (CandidateSkills store)"

definition category_query ::
  "Store \<Rightarrow> string \<Rightarrow> int \<Rightarrow> thresholds \<Rightarrow> int \<Rightarrow> int \<Rightarrow> int set" where
  "category_query store cat required_strength th recency_cutoff min_required_p =
     (let rows = category_rows store cat required_strength th recency_cutoff in
      set (filter (\<lambda>cid. int (length (remdups (map MasterSkillID
                                       (filter (\<lambda>cs. CandidateID cs = cid) rows))))
                          \<ge> min_required_p)
             (map CandidateID rows)))"

text \<open>One pass of the loop over the hard requirements, up to the set of candidate ids
  the requirement selects. \<open>None\<close> is the \<open>continue\<close> of a skill requirement that the
  matcher resolves to no skill id.\<close>

definition requirement_candidates ::
  "Engine \<Rightarrow> Store \<Rightarrow> string \<Rightarrow> thresholds \<Rightarrow> int \<Rightarrow> Requirement
     \<Rightarrow> py_error + int set option" where
  "requirement_candidates eng store context_text th recency_cutoff req =
     (let required_strength = get_required_evidence_strength (level_of req) in
      case req of
        SkillReq sr \<Rightarrow>
          (case normalize_and_match_skill (raw_skill sr) (master_skill_list eng)
                  (vector_index eng) (Some (get_embedding_cached eng)) context_text of
             Inl e \<Rightarrow> Inl e
           | Inr (skill_id, skill_code, rest) \<Rightarrow>
               (case (skill_id, skill_code) of
                  (Some sid, Some code) \<Rightarrow>
                    if sid = 0 then Inr None
                    else Inr (Some (skill_query store
                                 (resolve_skill_tree store code \<union> resolve_implied_skills store code)
                                 (min_months sr) required_strength th recency_cutoff))
                | _ \<Rightarrow> Inr None))
      | CategoryReq cr \<Rightarrow>
          Inr (Some (category_query store (category cr) required_strength th recency_cutoff
                       (min_required cr))))"

text \<open>The loop: \<open>eligible_candidates\<close> starts as \<open>None\<close>; the first selected set
  replaces it, every later one is intersected into it, and an empty result returns at
  once.\<close>

fun gate_loop ::
  "Engine \<Rightarrow> Store \<Rightarrow> string \<Rightarrow> thresholds \<Rightarrow> int \<Rightarrow> Requirement list \<Rightarrow> int set option
     \<Rightarrow> py_error + int set" where
  "gate_loop eng store context_text th recency_cutoff [] eligible_candidates =
     Inr (case eligible_candidates of None \<Rightarrow> {} | Some ids \<Rightarrow> ids)"
| "gate_loop eng store context_text th recency_cutoff (req # rest) eligible_candidates =
     (case requirement_candidates eng store context_text th recency_cutoff req of
        Inl e \<Rightarrow> Inl e
      | Inr None \<Rightarrow> gate_loop eng store context_text th recency_cutoff rest eligible_candidates
      | Inr (Some candidate_ids) \<Rightarrow>
          (let eligible = (case eligible_candidates of
                             None \<Rightarrow> candidate_ids
                           | Some ids \<Rightarrow> ids \<inter> candidate_ids)
           in if eligible = {} then Inr {}
              else gate_loop eng store context_text th recency_cutoff rest (Some eligible)))"

definition get_eligible_candidates ::
  "Engine \<Rightarrow> Store \<Rightarrow> date \<Rightarrow> JobSkillProfile \<Rightarrow> py_error + int set" where
  "get_eligible_candidates eng store today jd_data =
     (let hard_requirements = filter (\<lambda>r. level_of r = hard) (requirements jd_data) in
      if hard_requirements = [] then Inr {}
      else
        let th = SENIORITY_THRESHOLDS (seniority_level (job_metadata jd_data));
            recency_cutoff = toordinal today - RECENCY_MONTHS_LIMIT * 30
        in gate_loop eng store (role_context jd_data) th recency_cutoff hard_requirements None)"

subsection \<open>Soft requirements\<close>

lemma filter_hard_not_soft:
  "filter (\<lambda>r. level_of r \<noteq> soft \<and> level_of r = hard) rs =
     filter (\<lambda>r. level_of r = hard) rs"
  by (rule filter_cong) auto

text \<open>
  C5. Removing every requirement whose level is soft from a job profile leaves the
  result of the eligibility gate unchanged, whatever the engine, the store and the date.
\<close>

theorem soft_requirements_never_filter:
  "get_eligible_candidates eng store today
       (jd\<lparr>requirements := filter (\<lambda>r. level_of r \<noteq> soft) (requirements jd)\<rparr>) =
     get_eligible_candidates eng store today jd"
  by (simp add: get_eligible_candidates_def filter_hard_not_soft Let_def)

subsection \<open>The gate as an intersection\<close>

text \<open>\<open>selected\<close> keeps the candidate sets of the requirements that were not skipped;
  \<open>hard_outcomes\<close> lists what each hard requirement of a profile selects, in order.
  \<open>claimed_eligible\<close> is the specification's reading: starting from every candidate of
  the store, each hard requirement intersects its set in, and a skipped requirement
  excludes no one.\<close>

fun selected :: "'a option list \<Rightarrow> 'a list" where
  "selected [] = []"
| "selected (None # outs) = selected outs"
| "selected (Some x # outs) = x # selected outs"

definition hard_outcomes ::
  "Engine \<Rightarrow> Store \<Rightarrow> date \<Rightarrow> JobSkillProfile \<Rightarrow> (py_error + int set option) list" where
  "hard_outcomes eng store today jd =
     map (requirement_candidates eng store (role_context jd)
            (SENIORITY_THRESHOLDS (seniority_level (job_metadata jd)))
            (toordinal today - RECENCY_MONTHS_LIMIT * 30))
       (filter (\<lambda>r. level_of r = hard) (requirements jd))"

definition claimed_eligible :: "int set \<Rightarrow> int set option list \<Rightarrow> int set" where
  "claimed_eligible everyone outs =
     fold (\<lambda>out acc. case out of None \<Rightarrow> acc | Some ids \<Rightarrow> acc \<inter> ids) outs everyone"

lemma selected_append: "selected (xs @ ys) = selected xs @ selected ys"
  by (induction xs rule: selected.induct) auto

lemma gate_loop_inter:
  assumes "map (requirement_candidates eng store ctx th cutoff) reqs = map Inr outs"
  shows "gate_loop eng store ctx th cutoff reqs acc =
           Inr (if selected (acc # outs) = [] then {} else \<Inter> (set (selected (acc # outs))))"
  using assms
proof (induction reqs arbitrary: outs acc)
  case Nil
  then show ?case by (cases acc) auto
next
  case (Cons r reqs)
  then obtain out outs' where outs: "outs = out # outs'"
    and r: "requirement_candidates eng store ctx th cutoff r = Inr out"
    and rest: "map (requirement_candidates eng store ctx th cutoff) reqs = map Inr outs'"
    by (cases outs) auto
  show ?case
  proof (cases out)
    case None
    with r outs Cons.IH [OF rest, of acc] show ?thesis by (cases acc) auto
  next
    case (Some ids)
    let ?e = "case acc of None \<Rightarrow> ids | Some a \<Rightarrow> a \<inter> ids"
    show ?thesis
    proof (cases "?e = {}")
      case True
      with r Some outs show ?thesis
        by (cases acc) (auto split: list.splits)
    next
      case False
      with r Some have "gate_loop eng store ctx th cutoff (r # reqs) acc =
          gate_loop eng store ctx th cutoff reqs (Some ?e)" by (simp add: Let_def)
      with Cons.IH [OF rest, of "Some ?e"] Some outs show ?thesis
        by (cases acc) (auto split: list.splits)
    qed
  qed
qed

lemma gate_loop_early:
  assumes "map (requirement_candidates eng store ctx th cutoff) pre = map Inr outs"
    and "acc \<noteq> Some {}"
    and "selected (acc # outs) \<noteq> []" and "\<Inter> (set (selected (acc # outs))) = {}"
  shows "gate_loop eng store ctx th cutoff (pre @ rest) acc = Inr {}"
  using assms
proof (induction pre arbitrary: outs acc)
  case Nil
  then show ?case by (cases acc) auto
next
  case (Cons r pre)
  then obtain out outs' where outs: "outs = out # outs'"
    and r: "requirement_candidates eng store ctx th cutoff r = Inr out"
    and tail: "map (requirement_candidates eng store ctx th cutoff) pre = map Inr outs'"
    by (cases outs) auto
  show ?case
  proof (cases out)
    case None
    with Cons.prems outs have "selected (acc # outs') \<noteq> []"
      "\<Inter> (set (selected (acc # outs'))) = {}" by (cases acc; simp)+
    from Cons.IH [OF tail Cons.prems(2) this] r None show ?thesis by simp
  next
    case (Some ids)
    let ?e = "case acc of None \<Rightarrow> ids | Some a \<Rightarrow> a \<inter> ids"
    show ?thesis
    proof (cases "?e = {}")
      case True
      with r Some show ?thesis by (simp add: Let_def)
    next
      case False
      then have ne: "Some ?e \<noteq> Some {}" by simp
      have sel: "selected (Some ?e # outs') \<noteq> []" by simp
      from Cons.prems(4) outs Some
      have "\<Inter> (set (selected (Some ?e # outs'))) = {}"
        by (cases acc) (auto simp: Int_assoc)
      from Cons.IH [OF tail ne sel this] r Some False show ?thesis by (simp add: Let_def)
    qed
  qed
qed

lemma gate_loop_skip:
  assumes "requirement_candidates eng store ctx th cutoff r = Inr None"
  shows "gate_loop eng store ctx th cutoff (pre @ r # post) acc =
         gate_loop eng store ctx th cutoff (pre @ post) acc"
  using assms
proof (induction pre arbitrary: acc)
  case Nil
  then show ?case by simp
next
  case (Cons a pre)
  then show ?case
    by (auto simp: Let_def split: sum.splits option.splits)
qed


text \<open>A store with two candidates: candidate 1 with Java, candidate 2 with React.\<close>

definition eng0 :: Engine where
  "eng0 = \<lparr>master_skill_list = [language_java, framework_react], vector_index = [],
            get_embedding_cached = (\<lambda>t. [])\<rparr>"

definition store0 :: Store where
  "store0 =
     \<lparr>MasterSkills = [language_java, framework_react],
      SkillImplications = [],
      CandidateSkills =
        [\<lparr>CandidateID = 1, MasterSkillID = 1, TotalMonths = 30, MidMonths = 30,
          SeniorMonths = 0, MaxEvidenceStrength = 3,
          LastUsedDate = Some \<lparr>year = 2025, month = 6, day = 1\<rparr>,
          NormalizationMethod = ''exact''\<rparr>,
         \<lparr>CandidateID = 2, MasterSkillID = 2, TotalMonths = 48, MidMonths = 48,
          SeniorMonths = 0, MaxEvidenceStrength = 3,
          LastUsedDate = Some \<lparr>year = 2025, month = 11, day = 1\<rparr>,
          NormalizationMethod = ''exact''\<rparr>],
      RoleSkillTypeWeights = [],
      Candidates = [(1, ''Asha Rao''), (2, ''Bo Chen'')]\<rparr>"

definition today0 :: date where
  "today0 = \<lparr>year = 2026, month = 1, day = 1\<rparr>"

definition req_java :: Requirement where
  "req_java = SkillReq \<lparr>raw_skill = ''Java'', source = explicit, requirement_level = hard,
       skill_type_hint = programming, min_months = Some 24, skill_group_id = None,
       expected_evidence = experience_role\<rparr>"

definition req_kubernetes :: Requirement where
  "req_kubernetes = SkillReq \<lparr>raw_skill = ''Kubernetes'', source = explicit,
       requirement_level = hard, skill_type_hint = platform, min_months = Some 0,
       skill_group_id = None, expected_evidence = resume_skill\<rparr>"

definition req_react_soft :: Requirement where
  "req_react_soft = SkillReq \<lparr>raw_skill = ''React'', source = explicit,
       requirement_level = soft, skill_type_hint = framework, min_months = Some 12,
       skill_group_id = None, expected_evidence = project\<rparr>"

definition jd_of :: "Requirement list \<Rightarrow> JobSkillProfile" where
  "jd_of reqs = \<lparr>role_context = ''Backend engineer for payment services'',
       job_metadata = \<lparr>primary_domain = Backend, seniority_level = Mid\<rparr>,
       requirements = reqs\<rparr>"


lemma match_java0:
  "normalize_and_match_skill ''Java'' [language_java, framework_react] [] ef
      ''Backend engineer for payment services''
     = Inr (Some 1, Some ''language_java'', Some ''programming'', 1, ''exact'')"
proof -
  let ?c = "normalize_text ''Backend engineer for payment services''"
  have n: "normalize_skill_text2 (normalize_text ''Java'') = ''java''" by code_simp
  have "spec_exact ''java'' language_java" by code_simp
  then have "first_hit (spec_exact ''java'') [language_java, framework_react] language_java"
    by (simp add: first_hit_Cons)
  from exact_loop_first [OF this, of ?c]
  have "exact_loop ''java'' ?c [language_java, framework_react]
          = Some (guarded language_java ''java'' ?c 1 ''exact'')" by simp
  moreover have "passes_disambiguation language_java ''java'' ?c" by code_simp
  ultimately show ?thesis
    by (simp add: normalize_and_match_skill_def n guarded_def matched_def language_java_def)
qed

lemma match_react0:
  "normalize_and_match_skill ''React'' [language_java, framework_react] [] ef
      ''Backend engineer for payment services''
     = Inr (Some 2, Some ''framework_react'', Some ''framework'', 1, ''exact'')"
proof -
  let ?c = "normalize_text ''Backend engineer for payment services''"
  have n: "normalize_skill_text2 (normalize_text ''React'') = ''react''" by code_simp
  have "\<not> spec_exact ''react'' language_java" "spec_exact ''react'' framework_react"
    by code_simp+
  then have "first_hit (spec_exact ''react'') [language_java, framework_react] framework_react"
    by (simp add: first_hit_Cons)
  from exact_loop_first [OF this, of ?c]
  have "exact_loop ''react'' ?c [language_java, framework_react]
          = Some (guarded framework_react ''react'' ?c 1 ''exact'')" by simp
  moreover have "passes_disambiguation framework_react ''react'' ?c"
    by (simp add: passes_disambiguation_def framework_react_def)
  ultimately show ?thesis
    by (simp add: normalize_and_match_skill_def n guarded_def matched_def framework_react_def)
qed

lemma match_kubernetes0:
  "normalize_and_match_skill ''Kubernetes'' [language_java, framework_react] [] ef
      ''Backend engineer for payment services''
     = Inr (None, None, None, 0, ''no_match'')"
proof -
  let ?c = "normalize_text ''Backend engineer for payment services''"
  let ?ms = "[language_java, framework_react]"
  have n: "normalize_skill_text2 (normalize_text ''Kubernetes'') = ''kubernetes''" by code_simp
  have "list_all (\<lambda>s. \<not> spec_exact ''kubernetes'' s) ?ms"
    "list_all (\<lambda>s. \<not> spec_alias ''kubernetes'' s) ?ms"
    "list_all (\<lambda>s. \<not> spec_rule ''kubernetes'' s) ?ms" by code_simp+
  then have "exact_loop ''kubernetes'' ?c ?ms = None" "alias_loop ''kubernetes'' ?c ?ms = None"
    "rule_loop ''kubernetes'' ?c ?ms = None"
    by (simp_all only: exact_loop_none alias_loop_none rule_loop_none)
  then show ?thesis
    by (simp add: normalize_and_match_skill_def n no_result_def)
qed

lemma cutoff0: "toordinal today0 - RECENCY_MONTHS_LIMIT * 30 = 738537"
  by code_simp

lemma outcome_java0:
  "requirement_candidates eng0 store0 ''Backend engineer for payment services'' (SENIORITY_THRESHOLDS Mid)
      738537 req_java = Inr (Some {1})"
proof -
  have "skill_query store0
          (resolve_skill_tree store0 ''language_java''
             \<union> resolve_implied_skills store0 ''language_java'')
          (Some 24) 2 (SENIORITY_THRESHOLDS Mid) 738537 = {1}"
    by code_simp
  then show ?thesis
    by (simp add: requirement_candidates_def req_java_def eng0_def match_java0
          get_required_evidence_strength_def)
qed

lemma outcome_kubernetes0:
  "requirement_candidates eng0 store0 ''Backend engineer for payment services'' (SENIORITY_THRESHOLDS Mid)
      738537 req_kubernetes = Inr None"
  by (simp add: requirement_candidates_def req_kubernetes_def eng0_def match_kubernetes0)

lemma levels0:
  "level_of req_java = hard" "level_of req_kubernetes = hard" "level_of req_react_soft = soft"
  by (simp_all add: req_java_def req_kubernetes_def req_react_soft_def)

lemma gate_java_kubernetes:
  "get_eligible_candidates eng0 store0 today0 (jd_of [req_java, req_kubernetes, req_react_soft])
     = Inr {1}"
  using cutoff0
  by (simp add: get_eligible_candidates_def jd_of_def levels0 Let_def
        outcome_java0 outcome_kubernetes0 del: SENIORITY_THRESHOLDS.simps)

lemma gate_kubernetes:
  "get_eligible_candidates eng0 store0 today0 (jd_of [req_kubernetes, req_react_soft])
     = Inr {}"
  using cutoff0
  by (simp add: get_eligible_candidates_def jd_of_def levels0 Let_def
        outcome_kubernetes0 del: SENIORITY_THRESHOLDS.simps)


lemma gate_via_loop:
  "get_eligible_candidates eng store today jd =
     gate_loop eng store (role_context jd)
       (SENIORITY_THRESHOLDS (seniority_level (job_metadata jd)))
       (toordinal today - RECENCY_MONTHS_LIMIT * 30)
       (filter (\<lambda>r. level_of r = hard) (requirements jd)) None"
  by (simp add: get_eligible_candidates_def Let_def)

lemma skipped_outcome:
  assumes "normalize_and_match_skill (raw_skill sr) (master_skill_list eng) (vector_index eng)
             (Some (get_embedding_cached eng)) ctx = Inr (None, code, rest)"
  shows "requirement_candidates eng store ctx th cutoff (SkillReq sr) = Inr None"
  using assms by (simp add: requirement_candidates_def)

text \<open>
  C4. When no hard requirement raises, the gate returns the intersection of the candidate
  sets of the hard requirements that were not skipped, and the empty set when there is no
  such requirement (no hard requirement at all, or every one of them skipped). It returns
  the empty set as soon as the running intersection is empty, whatever the requirements
  after that point would do. A hard skill requirement that resolves to no skill id is
  skipped: the gate returns what it returns for the profile without that requirement.
\<close>

theorem get_eligible_candidates_intersection:
  "(hard_outcomes eng store today jd = map Inr outs \<longrightarrow>
      get_eligible_candidates eng store today jd =
        Inr (if selected outs = [] then {} else \<Inter> (set (selected outs))))
   \<and> (hard_outcomes eng store today jd = map Inr outs @ later
       \<and> selected outs \<noteq> [] \<and> \<Inter> (set (selected outs)) = {} \<longrightarrow>
      get_eligible_candidates eng store today jd = Inr {})
   \<and> (requirements jd = pre @ r # post \<and> level_of r = hard
       \<and> requirement_candidates eng store (role_context jd)
            (SENIORITY_THRESHOLDS (seniority_level (job_metadata jd)))
            (toordinal today - RECENCY_MONTHS_LIMIT * 30) r = Inr None \<longrightarrow>
      get_eligible_candidates eng store today jd =
        get_eligible_candidates eng store today (jd\<lparr>requirements := pre @ post\<rparr>))
   \<and> (normalize_and_match_skill (raw_skill sr) (master_skill_list eng) (vector_index eng)
         (Some (get_embedding_cached eng)) ctx = Inr (None, code, rest) \<longrightarrow>
      requirement_candidates eng store ctx th cutoff (SkillReq sr) = Inr None)"
proof (intro conjI impI)
  assume "hard_outcomes eng store today jd = map Inr outs"
  then have "map (requirement_candidates eng store (role_context jd)
            (SENIORITY_THRESHOLDS (seniority_level (job_metadata jd)))
            (toordinal today - RECENCY_MONTHS_LIMIT * 30))
       (filter (\<lambda>r. level_of r = hard) (requirements jd)) = map Inr outs"
    by (simp add: hard_outcomes_def)
  from gate_loop_inter [OF this, of None]
  show "get_eligible_candidates eng store today jd =
        Inr (if selected outs = [] then {} else \<Inter> (set (selected outs)))"
    by (simp add: gate_via_loop)
next
  assume a: "hard_outcomes eng store today jd = map Inr outs @ later
       \<and> selected outs \<noteq> [] \<and> \<Inter> (set (selected outs)) = {}"
  let ?rc = "requirement_candidates eng store (role_context jd)
            (SENIORITY_THRESHOLDS (seniority_level (job_metadata jd)))
            (toordinal today - RECENCY_MONTHS_LIMIT * 30)"
  from a obtain us vs where split: "filter (\<lambda>r. level_of r = hard) (requirements jd) = us @ vs"
    and us: "map ?rc us = map Inr outs"
    unfolding hard_outcomes_def map_eq_append_conv by metis
  from a have "selected (None # outs) \<noteq> []" "\<Inter> (set (selected (None # outs))) = {}"
    by simp_all
  from gate_loop_early [OF us _ this, of vs]
  show "get_eligible_candidates eng store today jd = Inr {}"
    by (simp add: gate_via_loop split)
next
  assume a: "requirements jd = pre @ r # post \<and> level_of r = hard
       \<and> requirement_candidates eng store (role_context jd)
            (SENIORITY_THRESHOLDS (seniority_level (job_metadata jd)))
            (toordinal today - RECENCY_MONTHS_LIMIT * 30) r = Inr None"
  then have "filter (\<lambda>r. level_of r = hard) (requirements jd) =
      filter (\<lambda>r. level_of r = hard) pre @ r # filter (\<lambda>r. level_of r = hard) post"
    by simp
  with a gate_loop_skip [of eng store "role_context jd" _ _ r]
  show "get_eligible_candidates eng store today jd =
        get_eligible_candidates eng store today (jd\<lparr>requirements := pre @ post\<rparr>)"
    by (simp add: gate_via_loop)
next
  assume "normalize_and_match_skill (raw_skill sr) (master_skill_list eng) (vector_index eng)
         (Some (get_embedding_cached eng)) ctx = Inr (None, code, rest)"
  then show "requirement_candidates eng store ctx th cutoff (SkillReq sr) = Inr None"
    by (rule skipped_outcome)
qed

text \<open>
  C4 as the specification states it does not hold: on a profile whose only hard
  requirement names a skill the master list does not know, the requirement is skipped, and
  the gate returns no candidate, where the stated intersection excludes neither of the two
  candidates of the store.
\<close>

theorem get_eligible_candidates_all_skipped_counterexample:
  "hard_outcomes eng0 store0 today0 (jd_of [req_kubernetes, req_react_soft]) = [Inr None]
   \<and> claimed_eligible (fst ` set (Candidates store0)) [None] = {1, 2}
   \<and> get_eligible_candidates eng0 store0 today0 (jd_of [req_kubernetes, req_react_soft])
       \<noteq> Inr (claimed_eligible (fst ` set (Candidates store0)) [None])"
proof -
  have "hard_outcomes eng0 store0 today0 (jd_of [req_kubernetes, req_react_soft]) = [Inr None]"
    using cutoff0
    by (simp add: hard_outcomes_def jd_of_def levels0 outcome_kubernetes0
          del: SENIORITY_THRESHOLDS.simps)
  moreover have "claimed_eligible (fst ` set (Candidates store0)) [None] = {1, 2}"
    by (auto simp: claimed_eligible_def store0_def)
  ultimately show ?thesis by (simp add: gate_kubernetes)
qed

theorem get_eligible_candidates_intersection_witness:
  "get_eligible_candidates eng0 store0 today0 (jd_of [req_java, req_kubernetes, req_react_soft])
     = Inr {1}
   \<and> get_eligible_candidates eng0 store0 today0 (jd_of [req_java, req_react_soft]) = Inr {1}
   \<and> requirement_candidates eng0 store0 ''Backend engineer for payment services''
        (SENIORITY_THRESHOLDS Mid) 738537 req_kubernetes = Inr None"
proof -
  let ?jd = "jd_of [req_java, req_kubernetes, req_react_soft]"
  have outs: "hard_outcomes eng0 store0 today0 ?jd = map Inr [Some {1}, None]"
    using cutoff0
    by (simp add: hard_outcomes_def jd_of_def levels0 outcome_java0 outcome_kubernetes0
          del: SENIORITY_THRESHOLDS.simps)
  from get_eligible_candidates_intersection
         [where eng = eng0 and store = store0 and today = today0 and jd = ?jd
            and outs = "[Some {1}, None]"] outs
  have 1: "get_eligible_candidates eng0 store0 today0 ?jd = Inr {1}" by simp
  have skip: "requirement_candidates eng0 store0 (role_context ?jd)
            (SENIORITY_THRESHOLDS (seniority_level (job_metadata ?jd)))
            (toordinal today0 - RECENCY_MONTHS_LIMIT * 30) req_kubernetes = Inr None"
    using cutoff0 by (simp add: jd_of_def outcome_kubernetes0 del: SENIORITY_THRESHOLDS.simps)
  have reqs: "requirements ?jd = [req_java] @ req_kubernetes # [req_react_soft]"
    by (simp add: jd_of_def)
  from get_eligible_candidates_intersection
         [where eng = eng0 and store = store0 and today = today0 and jd = ?jd
            and pre = "[req_java]" and r = req_kubernetes and post = "[req_react_soft]"]
       reqs skip levels0
  have "get_eligible_candidates eng0 store0 today0 ?jd =
        get_eligible_candidates eng0 store0 today0
          (?jd\<lparr>requirements := [req_java] @ [req_react_soft]\<rparr>)"
    by blast
  with 1 have 2: "get_eligible_candidates eng0 store0 today0 (jd_of [req_java, req_react_soft])
      = Inr {1}"
    by (simp add: jd_of_def)
  from get_eligible_candidates_intersection
         [where eng = eng0 and store = store0 and ctx = "''Backend engineer for payment services''"
            and th = "SENIORITY_THRESHOLDS Mid" and cutoff = 738537
            and sr = "\<lparr>raw_skill = ''Kubernetes'', source = explicit,
       requirement_level = hard, skill_type_hint = platform, min_months = Some 0,
       skill_group_id = None, expected_evidence = resume_skill\<rparr>"
            and code = None and rest = "(None, 0, ''no_match'')"]
       match_kubernetes0 [of "Some (get_embedding_cached eng0)"]
  have 3: "requirement_candidates eng0 store0 ''Backend engineer for payment services''
        (SENIORITY_THRESHOLDS Mid) 738537 req_kubernetes = Inr None"
    by (simp add: eng0_def req_kubernetes_def del: SENIORITY_THRESHOLDS.simps)
  from 1 2 3 show ?thesis by simp
qed

theorem soft_requirements_never_filter_witness:
  "get_eligible_candidates eng0 store0 today0 (jd_of [req_java, req_kubernetes]) = Inr {1}"
  using soft_requirements_never_filter
          [of eng0 store0 today0 "jd_of [req_java, req_kubernetes, req_react_soft]"]
        gate_java_kubernetes
  by (simp add: jd_of_def levels0)

section \<open>Role durations (Candidate/postprocessor.py)\<close>

text \<open>Dates carry no time of day here: the resume dates the parser yields and the
  reference date are at midnight. \<open>month_index\<close> counts months from year 0; two valid
  dates compare as \<open>datetime\<close> compares them, by year, month and day.\<close>

definition month_index :: "date \<Rightarrow> int" where
  "month_index d = year d * 12 + (month d - 1)"

definition date_lt :: "date \<Rightarrow> date \<Rightarrow> bool" where
  "date_lt a b =
     (month_index a < month_index b \<or> (month_index a = month_index b \<and> day a < day b))"

text \<open>\<open>dateutil.relativedelta(dt1, dt2)\<close>, from the library's source. \<open>set_months\<close>
  splits a month count into \<open>(years, months)\<close> of the same sign; \<open>radd\<close> adds such a pair
  to a date, wrapping the month and clipping the day to the length of the month reached.
  The constructor starts from the difference in calendar months and moves it by one while
  the shifted \<open>dt2\<close> overshoots \<open>dt1\<close>.\<close>

definition set_months :: "int \<Rightarrow> int \<times> int" where
  "set_months months =
     (if \<bar>months\<bar> > 11
      then (let s = sgn months in (((months * s) div 12) * s, ((months * s) mod 12) * s))
      else (0, months))"

definition radd :: "int \<times> int \<Rightarrow> date \<Rightarrow> date" where
  "radd delta dt =
     (let y = year dt + fst delta;
          m = month dt + snd delta;
          y2 = (if m > 12 then y + 1 else if m < 1 then y - 1 else y);
          m2 = (if m > 12 then m - 12 else if m < 1 then m + 12 else m)
      in \<lparr>year = y2, month = m2, day = min (days_in_month y2 m2) (day dt)\<rparr>)"

lemma month_index_radd: "month_index (radd (set_months m) dt) = month_index dt + m"
proof -
  have "fst (set_months m) * 12 + snd (set_months m) = m"
  proof (cases "\<bar>m\<bar> > 11")
    case True
    show ?thesis
    proof (cases "m > 0")
      case True
      with \<open>\<bar>m\<bar> > 11\<close> show ?thesis by (simp add: set_months_def Let_def)
    next
      case False
      with \<open>\<bar>m\<bar> > 11\<close> have neg: "m < 0" by simp
      have "(- m) div 12 * 12 + (- m) mod 12 = - m" by simp
      then have "- ((- m) div 12) * 12 + - ((- m) mod 12) = m" by linarith
      with neg \<open>\<bar>m\<bar> > 11\<close> show ?thesis by (simp add: set_months_def Let_def)
    qed
  next
    case False
    then show ?thesis by (simp add: set_months_def)
  qed
  then show ?thesis
    by (auto simp: month_index_def radd_def Let_def algebra_simps)
qed

function adjust_months :: "bool \<Rightarrow> date \<Rightarrow> date \<Rightarrow> int \<Rightarrow> int" where
  "adjust_months forward dt1 dt2 months =
     (let dtm = radd (set_months months) dt2 in
      if forward then (if date_lt dtm dt1 then adjust_months forward dt1 dt2 (months + 1)
                       else months)
      else (if date_lt dt1 dtm then adjust_months forward dt1 dt2 (months - 1)
            else months))"
  by pat_completeness auto
termination
proof (relation "measure (\<lambda>(forward, dt1, dt2, months).
          nat (if forward then month_index dt1 - month_index dt2 - months + 1
               else month_index dt2 + months - month_index dt1 + 1))")
  show "wf (measure (\<lambda>(forward, dt1, dt2, months).
          nat (if forward then month_index dt1 - month_index dt2 - months + 1
               else month_index dt2 + months - month_index dt1 + 1)))"
    by simp
next
  fix forward dt1 dt2 months dtm
  assume "dtm = radd (set_months months) dt2" "forward" "date_lt dtm dt1"
  then have "month_index dt2 + months \<le> month_index dt1"
    using month_index_radd [of months dt2] by (auto simp: date_lt_def)
  then show "((forward, dt1, dt2, months + 1), (forward, dt1, dt2, months))
      \<in> measure (\<lambda>(forward, dt1, dt2, months).
          nat (if forward then month_index dt1 - month_index dt2 - months + 1
               else month_index dt2 + months - month_index dt1 + 1))"
    using \<open>forward\<close> by simp
next
  fix forward dt1 dt2 months dtm
  assume "dtm = radd (set_months months) dt2" "\<not> forward" "date_lt dt1 dtm"
  then have "month_index dt1 \<le> month_index dt2 + months"
    using month_index_radd [of months dt2] by (auto simp: date_lt_def)
  then show "((forward, dt1, dt2, months - 1), (forward, dt1, dt2, months))
      \<in> measure (\<lambda>(forward, dt1, dt2, months).
          nat (if forward then month_index dt1 - month_index dt2 - months + 1
               else month_index dt2 + months - month_index dt1 + 1))"
    using \<open>\<not> forward\<close> by simp
qed

definition relativedelta :: "date \<Rightarrow> date \<Rightarrow> int \<times> int" where
  "relativedelta dt1 dt2 =
     (let months = (year dt1 - year dt2) * 12 + (month dt1 - month dt2)
      in set_months (adjust_months (date_lt dt1 dt2) dt1 dt2 months))"

text \<open>\<open>calculate_duration\<close>. \<open>parse\<close> is \<open>dateutil.parser.parse\<close>, \<open>None\<close> where it
  raises; \<open>today\<close> is the reference date that \<open>strptime\<close> reads from \<open>ref_date\<close>. The bare
  \<open>except\<close> turns every failure inside the \<open>try\<close> into a duration of 0, and a missing
  start date fails there too.\<close>

definition default_ref_date :: date where
  "default_ref_date = \<lparr>year = 2026, month = 1, day = 1\<rparr>"

definition is_present :: "string \<Rightarrow> bool" where
  "is_present e_raw = (str_in ''present'' (lower e_raw) \<or> e_raw = ''N/A'')"

definition or_present :: "string option \<Rightarrow> string" where
  "or_present end_raw =
     (case end_raw of None \<Rightarrow> ''Present'' | Some e \<Rightarrow> if e = [] then ''Present'' else e)"

definition calculate_duration ::
  "(string \<Rightarrow> date option) \<Rightarrow> string option \<Rightarrow> string option \<Rightarrow> date \<Rightarrow> int" where
  "calculate_duration parse start_raw end_raw today =
     (let e_raw = or_present end_raw in
      case (case start_raw of None \<Rightarrow> None | Some s_raw \<Rightarrow> parse s_raw) of
        None \<Rightarrow> 0
      | Some start_dt \<Rightarrow>
          (case (if is_present e_raw then Some today else parse e_raw) of
             None \<Rightarrow> 0
           | Some end_dt \<Rightarrow>
               (let delta = relativedelta end_dt start_dt in fst delta * 12 + snd delta)))"

text \<open>\<open>build_professional_profile\<close>, for the fields of a role that carry its dates. The
  duration is computed by \<open>calculate_duration\<close> called with two arguments, so with its
  default reference date; the end date of the role is resolved a second time, outside any
  \<open>try\<close>, against the \<open>ref_date\<close> of the profile builder.\<close>

text \<open>\<open>split_composite_skill\<close> and \<open>get_job_skill_mentions\<close>: a mention of several
  skills is split at the separators, and implicit mentions are left out.\<close>

fun split_on :: "char \<Rightarrow> string \<Rightarrow> string \<Rightarrow> string list" where
  "split_on sep part [] = [part]"
| "split_on sep part (c # cs) =
     (if c = sep then part # split_on sep [] cs else split_on sep (part @ [c]) cs)"

definition COMPOSITE_SEPARATORS :: "string list" where
  "COMPOSITE_SEPARATORS = [''/'', [CHR 0x5C], '','', '' & '', '' and '', ''+'']"

definition split_composite_skill :: "string \<Rightarrow> string list" where
  "split_composite_skill raw =
     (if raw = [] then []
      else let text = strip (lower raw);
               text = fold (\<lambda>sep t. replace sep ''|'' t) COMPOSITE_SEPARATORS text;
               parts = map strip (split_on CHR ''|'' [] text)
           in filter (\<lambda>p. \<not> length p < 2) parts)"

record ExtractedSkill =
  raw_name :: string
  es_source :: string
  es_confidence :: real

record mention =
  m_raw_name :: string
  m_source :: string
  m_confidence :: real
  m_context :: string

definition get_job_skill_mentions :: "ExtractedSkill list \<Rightarrow> string \<Rightarrow> mention list" where
  "get_job_skill_mentions extracted responsibilities =
     concat (map (\<lambda>s. if es_source s = ''implicit'' then []
                       else map (\<lambda>skl. \<lparr>m_raw_name = strip skl, m_source = es_source s,
                                        m_confidence = es_confidence s,
                                        m_context = responsibilities\<rparr>)
                              (split_composite_skill (raw_name s)))
                 extracted)"

record RawExperienceItem =
  job_title :: string
  start_date_raw :: "string option"
  end_date_raw :: "string option"
  responsibilities :: string
  extracted_skills :: "ExtractedSkill list"

text \<open>A role of the profile. Its end date is the resolved date (written out as
  \<open>YYYY-MM-DD\<close> in the source, which orders as the dates do). Its skills are the mentions
  of \<open>get_job_skill_mentions\<close>; the context they carry is not read again and is not
  kept.\<close>

record CandidateRole =
  title :: string
  verified_duration :: int
  role_start_date_raw :: "string option"
  role_end_date :: date
  role_extracted_skills :: "ExtractedSkill list"

definition build_role ::
  "(string \<Rightarrow> date option) \<Rightarrow> date \<Rightarrow> RawExperienceItem \<Rightarrow> py_error + CandidateRole" where
  "build_role parse today role =
     (let duration = calculate_duration parse (start_date_raw role) (end_date_raw role)
                       default_ref_date
      in case (if str_in ''present'' (lower (or_present (end_date_raw role)))
                  \<or> end_date_raw role = Some ''N/A''
               then Some today else parse (or_present (end_date_raw role))) of
           None \<Rightarrow> Inl ParserError
         | Some end_dt \<Rightarrow>
             Inr \<lparr>title = job_title role, verified_duration = duration,
                  role_start_date_raw = start_date_raw role, role_end_date = end_dt,
                  role_extracted_skills =
                    map (\<lambda>m. \<lparr>raw_name = m_raw_name m, es_source = m_source m,
                               es_confidence = m_confidence m\<rparr>)
                      (get_job_skill_mentions (extracted_skills role)
                         (responsibilities role))\<rparr>)"

fun build_roles ::
  "(string \<Rightarrow> date option) \<Rightarrow> date \<Rightarrow> CandidateRole list \<Rightarrow> RawExperienceItem list
     \<Rightarrow> py_error + CandidateRole list" where
  "build_roles parse today candidate_roles [] = Inr candidate_roles"
| "build_roles parse today candidate_roles (role # rest) =
     (case build_role parse today role of
        Inl e \<Rightarrow> Inl e
      | Inr r \<Rightarrow> build_roles parse today (candidate_roles @ [r]) rest)"

definition build_professional_profile ::
  "(string \<Rightarrow> date option) \<Rightarrow> RawExperienceItem list \<Rightarrow> date \<Rightarrow> py_error + CandidateRole list"
  where
  "build_professional_profile parse raw_experience ref_date =
     build_roles parse ref_date [] raw_experience"


text \<open>Dates written \<open>YYYY-MM-DD\<close>, which the parser reads as the date they spell: the
  parser used in the examples.\<close>

definition digit :: "char \<Rightarrow> int option" where
  "digit c = (if CHR ''0'' \<le> c \<and> c \<le> CHR ''9'' then Some (int (of_char c) - 48) else None)"

fun number :: "int \<Rightarrow> string \<Rightarrow> int option" where
  "number acc [] = Some acc"
| "number acc (c # cs) = (case digit c of None \<Rightarrow> None | Some d \<Rightarrow> number (acc * 10 + d) cs)"

definition parse_iso :: "string \<Rightarrow> date option" where
  "parse_iso s =
     (if length s = 10 \<and> s ! 4 = CHR ''-'' \<and> s ! 7 = CHR ''-'' then
        (case (number 0 (take 4 s), number 0 (take 2 (drop 5 s)), number 0 (drop 8 s)) of
           (Some y, Some m, Some d) \<Rightarrow>
             (let dt = \<lparr>year = y, month = m, day = d\<rparr> in
              if valid_date dt then Some dt else None)
         | _ \<Rightarrow> None)
      else None)"

subsection \<open>The loop of \<open>relativedelta\<close> runs at most once\<close>

declare adjust_months.simps [simp del]















section \<open>Skill aggregation (Candidate/postprocessor.py, Candidate/vectorizer.py)\<close>

text \<open>\<open>SkillMetrics\<close> (Shared/Schema/Dto.py). The dataclass fields are per instance.
  \<open>confidence_sources\<close> and \<open>normalization_methods\<close> are assigned in the class body without
  an annotation, so they are attributes of the class: one list each, which every instance
  reads. No code assigns them on an instance; \<open>acc["confidence_sources"].append(method)\<close>
  reads the class list and appends to it. The aggregation state is therefore the
  dictionary of instances together with the one list of the class.\<close>

record SkillMetrics =
  junior_months :: int
  mid_months :: int
  senior_months :: int
  first_used :: "date option"
  last_used :: "date option"
  evidence_score :: real
  total_months :: int
  confidence_scores :: "real list"
  match_confidence :: real
  evidence_sources :: "string list"
  max_evidence_strength :: int
  normalization_confidence :: real
  has_presence :: bool

definition new_SkillMetrics :: SkillMetrics where
  "new_SkillMetrics =
     \<lparr>junior_months = 0, mid_months = 0, senior_months = 0, first_used = None,
      last_used = None, evidence_score = 0.0, total_months = 0, confidence_scores = [],
      match_confidence = 0.0, evidence_sources = [], max_evidence_strength = 1,
      normalization_confidence = 0.00, has_presence = False\<rparr>"

record agg_state =
  skill_map :: "string \<rightharpoonup> SkillMetrics"
  SkillMetrics_confidence_sources :: "string list"

text \<open>\<open>skill_map[code]\<close> on the \<open>defaultdict\<close>: a missing key gets a new instance.\<close>

definition lookup_default :: "(string \<rightharpoonup> SkillMetrics) \<Rightarrow> string \<Rightarrow> SkillMetrics" where
  "lookup_default m code = (case m code of None \<Rightarrow> new_SkillMetrics | Some acc \<Rightarrow> acc)"

text \<open>\<open>acc.confidence_sources\<close>, for any instance \<open>acc\<close>: the attribute of the class.\<close>

definition confidence_sources :: "agg_state \<Rightarrow> SkillMetrics \<Rightarrow> string list" where
  "confidence_sources st acc = SkillMetrics_confidence_sources st"

definition normalize_job_title :: "string \<Rightarrow> string" where
  "normalize_job_title t0 =
     (if t0 = [] then []
      else let t = lower t0;
               t = sub_runs (\<lambda>c. c = CHR ''_'' \<or> c = CHR ''-'' \<or> c = CHR ''/'') '' '' t;
               t = replace ''.net'' '' dot net '' t;
               t = replace ''dotnet'' '' dot net '' t;
               t = replace ''asp.net'' '' asp net '' t;
               t = filter (\<lambda>c. (CHR ''a'' \<le> c \<and> c \<le> CHR ''z'')
                              \<or> (CHR ''0'' \<le> c \<and> c \<le> CHR ''9'') \<or> is_space c) t
           in strip (sub_runs is_space '' '' t))"

datatype level = junior | mid | senior

definition infer_level_from_title :: "string \<Rightarrow> level" where
  "infer_level_from_title t0 =
     (let t = lower t0 in
      if list_ex (\<lambda>x. str_in x t) [''intern'', ''trainee''] then junior
      else if list_ex (\<lambda>x. str_in x t) [''junior'', ''associate''] then junior
      else if list_ex (\<lambda>x. str_in x t) [''senior'', ''lead'', ''principal''] then senior
      else mid)"

definition ROLE_TITLE_SKILL_MAP :: "(string \<times> string list) list" where
  "ROLE_TITLE_SKILL_MAP =
     [(''dot net developer'', [''framework_dotnet'']),
      (''java developer'', [''language_java'']),
      (''python developer'', [''language_python'']),
      (''frontend developer'', [''web_html'', ''web_css'', ''language_javascript'']),
      (''backend developer'', [])]"

definition SOURCE_EVIDENCE_WEIGHT :: "string \<rightharpoonup> real" where
  "SOURCE_EVIDENCE_WEIGHT =
     [''skills_section'' \<mapsto> 1.0, ''technology_list'' \<mapsto> 0.9, ''responsibility'' \<mapsto> 0.7,
      ''implicit'' \<mapsto> 0.0]"

definition EVIDENCE_STRENGTH :: "string \<rightharpoonup> int" where
  "EVIDENCE_STRENGTH = [''responsibility'' \<mapsto> 3, ''role_title'' \<mapsto> 2, ''skills_section'' \<mapsto> 1]"

text \<open>The credit of the role title: every skill code of a key that occurs in the title
  gets an instance with \<open>has_presence\<close> set and \<open>role_title\<close> among its sources.\<close>

definition title_credit :: "(string \<rightharpoonup> SkillMetrics) \<Rightarrow> string \<Rightarrow> (string \<rightharpoonup> SkillMetrics)" where
  "title_credit m skill_code =
     m(skill_code \<mapsto>
         (lookup_default m skill_code)
           \<lparr>has_presence := True,
            evidence_sources :=
              List.insert ''role_title'' (evidence_sources (lookup_default m skill_code))\<rparr>)"

definition role_title_credit :: "string \<Rightarrow> (string \<rightharpoonup> SkillMetrics) \<Rightarrow> (string \<rightharpoonup> SkillMetrics)"
  where
  "role_title_credit role_title m =
     (if role_title = [] then m
      else fold (\<lambda>(key, skill_codes) m1.
                   if str_in key role_title then fold (\<lambda>code m2. title_credit m2 code) skill_codes m1
                   else m1)
             ROLE_TITLE_SKILL_MAP m)"

text \<open>\<open>acc[level + "_months"] += months\<close>.\<close>

fun add_months :: "level \<Rightarrow> int \<Rightarrow> SkillMetrics \<Rightarrow> SkillMetrics" where
  "add_months junior months acc = acc\<lparr>junior_months := junior_months acc + months\<rparr>"
| "add_months mid months acc = acc\<lparr>mid_months := mid_months acc + months\<rparr>"
| "add_months senior months acc = acc\<lparr>senior_months := senior_months acc + months\<rparr>"

text \<open>\<open>max(EVIDENCE_STRENGTH[src] for src in sources)\<close>: a source without a strength
  raises \<open>KeyError\<close>.\<close>

fun max_strength :: "string list \<Rightarrow> py_error + int option" where
  "max_strength [] = Inr None"
| "max_strength (src # rest) =
     (case EVIDENCE_STRENGTH src of
        None \<Rightarrow> Inl KeyError
      | Some v \<Rightarrow>
          (case max_strength rest of
             Inl e \<Rightarrow> Inl e
           | Inr None \<Rightarrow> Inr (Some v)
           | Inr (Some w) \<Rightarrow> Inr (Some (max v w))))"

text \<open>What the engine side of ingestion passes to the matcher.\<close>

record Matcher =
  master_skills :: "MasterSkill list"
  index :: "VectorEntry list"
  embed_fn :: "string \<Rightarrow> real list"

text \<open>The skill code a mention is accepted for, if any: the matcher's \<open>SkillCode\<close> when
  it is not empty.\<close>

definition accepted_code :: "Matcher \<Rightarrow> mention \<Rightarrow> py_error + string option" where
  "accepted_code mt m =
     (case normalize_and_match_skill (m_raw_name m) (master_skills mt) (index mt)
             (Some (embed_fn mt)) (m_context m) of
        Inl e \<Rightarrow> Inl e
      | Inr (sid, code, rest) \<Rightarrow>
          Inr (case code of None \<Rightarrow> None | Some c \<Rightarrow> if c = [] then None else Some c))"

text \<open>One pass of the loop over the mentions of a role.\<close>

definition process_mention ::
  "Matcher \<Rightarrow> level \<Rightarrow> int \<Rightarrow> date option \<Rightarrow> date \<Rightarrow> agg_state \<Rightarrow> mention
     \<Rightarrow> py_error + agg_state" where
  "process_mention mt lvl months start end_date st m =
     (case normalize_and_match_skill (m_raw_name m) (master_skills mt) (index mt)
             (Some (embed_fn mt)) (m_context m) of
        Inl e \<Rightarrow> Inl e
      | Inr (sid, code, stype, confidence, method) \<Rightarrow>
          (case code of
             None \<Rightarrow> Inr st
           | Some skill_code \<Rightarrow>
               if skill_code = [] then Inr st
               else
                 (let acc = add_months lvl months (lookup_default (skill_map st) skill_code) in
                  case (case first_used acc of
                          None \<Rightarrow> Inr start
                        | Some f \<Rightarrow>
                            (case start of
                               None \<Rightarrow> Inl TypeError
                             | Some s \<Rightarrow> Inr (Some (if date_lt s f then s else f)))) of
                    Inl e \<Rightarrow> Inl e
                  | Inr first \<Rightarrow>
                      (let acc = acc\<lparr>first_used := first\<rparr>;
                           acc = acc\<lparr>last_used :=
                                   (case last_used acc of
                                      None \<Rightarrow> Some end_date
                                    | Some l \<Rightarrow> Some (if date_lt l end_date then end_date else l))\<rparr>
                       in case SOURCE_EVIDENCE_WEIGHT (m_source m) of
                            None \<Rightarrow> Inl KeyError
                          | Some evidence_weight \<Rightarrow>
                              (let acc = acc\<lparr>evidence_score := evidence_score acc + evidence_weight,
                                             evidence_sources :=
                                               List.insert (m_source m) (evidence_sources acc)\<rparr>;
                                   acc = (if m_source m = ''skills_section''
                                          then acc\<lparr>has_presence := True\<rparr> else acc)
                               in case max_strength (evidence_sources acc) of
                                    Inl e \<Rightarrow> Inl e
                                  | Inr None \<Rightarrow> Inl ValueError
                                  | Inr (Some strength) \<Rightarrow>
                                      (let blended_confidence =
                                             (0.6 * m_confidence m + 0.4 * confidence)
                                             * evidence_weight;
                                           acc = acc\<lparr>max_evidence_strength := strength,
                                                     confidence_scores :=
                                                       confidence_scores acc
                                                       @ [blended_confidence]\<rparr>
                                       in Inr \<lparr>skill_map = (skill_map st)(skill_code \<mapsto> acc),
                                               SkillMetrics_confidence_sources =
                                                 confidence_sources st acc @ [method]\<rparr>))))))"

fun process_mentions ::
  "Matcher \<Rightarrow> level \<Rightarrow> int \<Rightarrow> date option \<Rightarrow> date \<Rightarrow> agg_state \<Rightarrow> mention list
     \<Rightarrow> py_error + agg_state" where
  "process_mentions mt lvl months start end_date st [] = Inr st"
| "process_mentions mt lvl months start end_date st (m # rest) =
     (case process_mention mt lvl months start end_date st m of
        Inl e \<Rightarrow> Inl e
      | Inr st1 \<Rightarrow> process_mentions mt lvl months start end_date st1 rest)"

text \<open>\<open>process_extracted_skills\<close>: the title credit, the start date parsed when it is
  given as text, then the mentions.\<close>

definition process_extracted_skills ::
  "(string \<Rightarrow> date option) \<Rightarrow> Matcher \<Rightarrow> mention list \<Rightarrow> agg_state \<Rightarrow> level \<Rightarrow> int
     \<Rightarrow> string option \<Rightarrow> date \<Rightarrow> string \<Rightarrow> py_error + agg_state" where
  "process_extracted_skills parse mt skill_mentions st lvl months start_raw end_date role_title =
     (let st1 = st\<lparr>skill_map := role_title_credit role_title (skill_map st)\<rparr> in
      case (case start_raw of
              None \<Rightarrow> Inr None
            | Some s \<Rightarrow> if s = [] then Inr None
                        else (case parse s of None \<Rightarrow> Inl ParserError | Some d \<Rightarrow> Inr (Some d))) of
        Inl e \<Rightarrow> Inl e
      | Inr start \<Rightarrow> process_mentions mt lvl months start end_date st1 skill_mentions)"

text \<open>\<open>sync_profile_to_master\<close>, up to the rows it stores: the loop over the roles of the
  profile, then the totals. The mentions of a role are taken again from its skills, with
  an empty context, because a role of the profile has no \<open>responsibilities\<close>.\<close>

definition role_mentions :: "CandidateRole \<Rightarrow> mention list" where
  "role_mentions role = get_job_skill_mentions (role_extracted_skills role) []"

fun sync_roles ::
  "(string \<Rightarrow> date option) \<Rightarrow> Matcher \<Rightarrow> agg_state \<Rightarrow> CandidateRole list
     \<Rightarrow> py_error + agg_state" where
  "sync_roles parse mt st [] = Inr st"
| "sync_roles parse mt st (role # rest) =
     (let role_title = normalize_job_title (title role) in
      case process_extracted_skills parse mt (role_mentions role) st
             (infer_level_from_title role_title) (verified_duration role)
             (role_start_date_raw role) (role_end_date role) role_title of
        Inl e \<Rightarrow> Inl e
      | Inr st1 \<Rightarrow> sync_roles parse mt st1 rest)"

definition finish :: "SkillMetrics \<Rightarrow> SkillMetrics" where
  "finish acc =
     acc\<lparr>total_months := junior_months acc + mid_months acc + senior_months acc,
         match_confidence :=
           (if confidence_scores acc \<noteq> []
            then sum_list (confidence_scores acc) / real (length (confidence_scores acc))
            else 0.0)\<rparr>"

text \<open>The state a process starts with has no instance and an empty class list; the
  class list outlives a profile, so a later profile of the same process starts from the
  list the earlier ones left.\<close>

definition sync_profile_to_master ::
  "(string \<Rightarrow> date option) \<Rightarrow> Matcher \<Rightarrow> string list \<Rightarrow> CandidateRole list
     \<Rightarrow> py_error + agg_state" where
  "sync_profile_to_master parse mt class_list candidate_roles =
     (case sync_roles parse mt
             \<lparr>skill_map = Map.empty, SkillMetrics_confidence_sources = class_list\<rparr>
             candidate_roles of
        Inl e \<Rightarrow> Inl e
      | Inr st \<Rightarrow> Inr (st\<lparr>skill_map := map_option finish \<circ> skill_map st\<rparr>))"

text \<open>\<open>store_candidate_skill\<close> writes, as the normalisation method of a skill, the
  strongest method in the \<open>confidence_sources\<close> it reads from the instance.\<close>

definition NORMALIZATION_PRIORITY :: "string \<Rightarrow> int" where
  "NORMALIZATION_PRIORITY m =
     (if m = ''exact'' then 4 else if m = ''alias'' then 3 else if m = ''rule'' then 2
      else if m = ''vector'' then 1 else 0)"

fun resolve_normalization_method :: "string list \<Rightarrow> string" where
  "resolve_normalization_method [] = ''unknown''"
| "resolve_normalization_method [m] = m"
| "resolve_normalization_method (m # rest) =
     (let best = resolve_normalization_method rest in
      if NORMALIZATION_PRIORITY best > NORMALIZATION_PRIORITY m then best else m)"

subsection \<open>Invariants of the accumulators\<close>

text \<open>\<open>conf_len\<close> is the number of blended confidences a skill has so far;
  \<open>accepted_count\<close> the number of mentions of a list that the matcher accepts for a skill;
  \<open>dates_ok\<close> says that a first use, once set, is not after the last use.\<close>

definition conf_len :: "agg_state \<Rightarrow> string \<Rightarrow> nat" where
  "conf_len st k = length (confidence_scores (lookup_default (skill_map st) k))"

definition dates_ok :: "SkillMetrics \<Rightarrow> bool" where
  "dates_ok acc =
     (case first_used acc of
        None \<Rightarrow> True
      | Some f \<Rightarrow> (case last_used acc of None \<Rightarrow> False | Some l \<Rightarrow> \<not> date_lt l f))"

definition accepted_count :: "Matcher \<Rightarrow> string \<Rightarrow> mention list \<Rightarrow> nat" where
  "accepted_count mt k ms = length (filter (\<lambda>m. accepted_code mt m = Inr (Some k)) ms)"

lemma add_months_keeps [simp]:
  "confidence_scores (add_months lvl n acc) = confidence_scores acc"
  "first_used (add_months lvl n acc) = first_used acc"
  "last_used (add_months lvl n acc) = last_used acc"
  "evidence_sources (add_months lvl n acc) = evidence_sources acc"
  by (cases lvl; simp)+

lemma process_mention_skip:
  assumes "process_mention mt lvl months start e st m = Inr st'"
    and "accepted_code mt m = Inr None"
  shows "st' = st"
  using assms
  by (auto simp: process_mention_def accepted_code_def
      split: sum.splits option.splits prod.splits if_splits)

lemma process_mention_accepted:
  assumes "process_mention mt lvl months start e st m = Inr st'"
  shows "\<exists>out. accepted_code mt m = Inr out"
  using assms
  by (auto simp: process_mention_def accepted_code_def split: sum.splits prod.splits)

lemma process_mention_hit:
  assumes "process_mention mt lvl months start e st m = Inr st'"
    and "accepted_code mt m = Inr (Some k)"
  shows "\<exists>acc method score.
           st' = \<lparr>skill_map = (skill_map st)(k \<mapsto> acc),
                  SkillMetrics_confidence_sources =
                    SkillMetrics_confidence_sources st @ [method]\<rparr>
           \<and> confidence_scores acc =
               confidence_scores (lookup_default (skill_map st) k) @ [score]
           \<and> first_used acc =
               (case first_used (lookup_default (skill_map st) k) of
                  None \<Rightarrow> start
                | Some f \<Rightarrow> (case start of None \<Rightarrow> None
                             | Some s \<Rightarrow> Some (if date_lt s f then s else f)))
           \<and> (first_used (lookup_default (skill_map st) k) \<noteq> None \<longrightarrow> start \<noteq> None)
           \<and> last_used acc =
               (case last_used (lookup_default (skill_map st) k) of
                  None \<Rightarrow> Some e
                | Some l \<Rightarrow> Some (if date_lt l e then e else l))"
  using assms
  by (auto simp: process_mention_def accepted_code_def confidence_sources_def Let_def
      split: sum.splits option.splits prod.splits if_splits)


lemma lookup_default_upd:
  "lookup_default (m(k \<mapsto> acc)) j = (if j = k then acc else lookup_default m j)"
  by (simp add: lookup_default_def)

lemma process_mention_conf_len:
  assumes "process_mention mt lvl months start e st m = Inr st'"
  shows "conf_len st' k = conf_len st k + (if accepted_code mt m = Inr (Some k) then 1 else 0)"
proof -
  from process_mention_accepted [OF assms] obtain out where out: "accepted_code mt m = Inr out"
    by blast
  show ?thesis
  proof (cases out)
    case None
    with out process_mention_skip [OF assms] show ?thesis by simp
  next
    case (Some j)
    with out process_mention_hit [OF assms, of j] show ?thesis
      by (auto simp: conf_len_def lookup_default_upd)
  qed
qed

lemma new_dates_ok:
  assumes "dates_ok old" and "\<forall>s. start = Some s \<longrightarrow> \<not> date_lt e s"
    and "first_used old \<noteq> None \<longrightarrow> start \<noteq> None"
    and "first_used acc =
               (case first_used old of
                  None \<Rightarrow> start
                | Some f \<Rightarrow> (case start of None \<Rightarrow> None
                             | Some s \<Rightarrow> Some (if date_lt s f then s else f)))"
    and "last_used acc =
               (case last_used old of
                  None \<Rightarrow> Some e
                | Some l \<Rightarrow> Some (if date_lt l e then e else l))"
  shows "dates_ok acc"
  using assms
  by (auto simp: dates_ok_def date_lt_def split: option.splits if_splits)

lemma process_mention_dates:
  assumes "process_mention mt lvl months start e st m = Inr st'"
    and "\<forall>s. start = Some s \<longrightarrow> \<not> date_lt e s"
    and "\<forall>k. dates_ok (lookup_default (skill_map st) k)"
  shows "dates_ok (lookup_default (skill_map st') k)"
proof -
  from process_mention_accepted [OF assms(1)] obtain out
    where out: "accepted_code mt m = Inr out" by blast
  show ?thesis
  proof (cases out)
    case None
    with out process_mention_skip [OF assms(1)] assms(3) show ?thesis by simp
  next
    case (Some j)
    with out process_mention_hit [OF assms(1), of j] obtain acc how
      where st': "st' = \<lparr>skill_map = (skill_map st)(j \<mapsto> acc),
                  SkillMetrics_confidence_sources =
                    SkillMetrics_confidence_sources st @ [how]\<rparr>"
        and f: "first_used acc =
               (case first_used (lookup_default (skill_map st) j) of
                  None \<Rightarrow> start
                | Some f \<Rightarrow> (case start of None \<Rightarrow> None
                             | Some s \<Rightarrow> Some (if date_lt s f then s else f)))"
        and n: "first_used (lookup_default (skill_map st) j) \<noteq> None \<longrightarrow> start \<noteq> None"
        and l: "last_used acc =
               (case last_used (lookup_default (skill_map st) j) of
                  None \<Rightarrow> Some e
                | Some l \<Rightarrow> Some (if date_lt l e then e else l))"
      by blast
    from new_dates_ok [OF assms(3) [rule_format, of j] assms(2) n f l]
    have "dates_ok acc" .
    with st' assms(3) show ?thesis by (simp add: lookup_default_upd)
  qed
qed

lemma process_mentions_conf_len:
  "process_mentions mt lvl months start e st ms = Inr st' \<Longrightarrow>
     conf_len st' k = conf_len st k + accepted_count mt k ms"
proof (induction ms arbitrary: st)
  case Nil
  then show ?case by (simp add: accepted_count_def)
next
  case (Cons m ms)
  then obtain st1 where 1: "process_mention mt lvl months start e st m = Inr st1"
    and 2: "process_mentions mt lvl months start e st1 ms = Inr st'"
    by (cases "process_mention mt lvl months start e st m") auto
  from Cons.IH [OF 2] process_mention_conf_len [OF 1, of k] show ?case
    by (simp add: accepted_count_def)
qed

lemma process_mentions_dates:
  "process_mentions mt lvl months start e st ms = Inr st' \<Longrightarrow>
     \<forall>s. start = Some s \<longrightarrow> \<not> date_lt e s \<Longrightarrow>
     \<forall>k. dates_ok (lookup_default (skill_map st) k) \<Longrightarrow>
     dates_ok (lookup_default (skill_map st') k)"
proof (induction ms arbitrary: st)
  case Nil
  then show ?case by simp
next
  case (Cons m ms)
  then obtain st1 where 1: "process_mention mt lvl months start e st m = Inr st1"
    and 2: "process_mentions mt lvl months start e st1 ms = Inr st'"
    by (cases "process_mention mt lvl months start e st m") auto
  have "\<forall>k. dates_ok (lookup_default (skill_map st1) k)"
    using process_mention_dates [OF 1 Cons.prems(2,3)] by blast
  from Cons.IH [OF 2 Cons.prems(2) this] show ?case .
qed

lemma title_credit_keeps:
  "confidence_scores (lookup_default (title_credit m c) k) =
     confidence_scores (lookup_default m k)"
  "first_used (lookup_default (title_credit m c) k) = first_used (lookup_default m k)"
  "last_used (lookup_default (title_credit m c) k) = last_used (lookup_default m k)"
  by (simp_all add: title_credit_def lookup_default_upd)

lemma fold_title_credit_keeps:
  "confidence_scores (lookup_default (fold (\<lambda>code m2. title_credit m2 code) cs m) k) =
     confidence_scores (lookup_default m k)
   \<and> first_used (lookup_default (fold (\<lambda>code m2. title_credit m2 code) cs m) k) =
       first_used (lookup_default m k)
   \<and> last_used (lookup_default (fold (\<lambda>code m2. title_credit m2 code) cs m) k) =
       last_used (lookup_default m k)"
  by (induction cs arbitrary: m) (simp_all add: title_credit_keeps)

lemma fold_keys_keeps:
  "confidence_scores (lookup_default
       (fold (\<lambda>(key, skill_codes) m1.
                if str_in key t then fold (\<lambda>code m2. title_credit m2 code) skill_codes m1
                else m1) table m) k) =
     confidence_scores (lookup_default m k)
   \<and> first_used (lookup_default
       (fold (\<lambda>(key, skill_codes) m1.
                if str_in key t then fold (\<lambda>code m2. title_credit m2 code) skill_codes m1
                else m1) table m) k) = first_used (lookup_default m k)
   \<and> last_used (lookup_default
       (fold (\<lambda>(key, skill_codes) m1.
                if str_in key t then fold (\<lambda>code m2. title_credit m2 code) skill_codes m1
                else m1) table m) k) = last_used (lookup_default m k)"
  by (induction table arbitrary: m) (auto simp: fold_title_credit_keeps)

lemma role_title_credit_keeps:
  "confidence_scores (lookup_default (role_title_credit t m) k) =
     confidence_scores (lookup_default m k)"
  "first_used (lookup_default (role_title_credit t m) k) = first_used (lookup_default m k)"
  "last_used (lookup_default (role_title_credit t m) k) = last_used (lookup_default m k)"
  using fold_keys_keeps [of t ROLE_TITLE_SKILL_MAP m k]
  by (simp_all add: role_title_credit_def)

text \<open>A role whose start date, when it is given and parses, is not after its end
  date.\<close>

definition role_dates_ok :: "(string \<Rightarrow> date option) \<Rightarrow> CandidateRole \<Rightarrow> bool" where
  "role_dates_ok parse role =
     (case role_start_date_raw role of
        None \<Rightarrow> True
      | Some s \<Rightarrow> (case parse s of None \<Rightarrow> True
                   | Some d \<Rightarrow> \<not> date_lt (role_end_date role) d))"

lemma process_extracted_skills_conf_len:
  assumes "process_extracted_skills parse mt ms st lvl months start_raw e t = Inr st'"
  shows "conf_len st' k = conf_len st k + accepted_count mt k ms"
proof -
  let ?st1 = "st\<lparr>skill_map := role_title_credit t (skill_map st)\<rparr>"
  from assms obtain start where "process_mentions mt lvl months start e ?st1 ms = Inr st'"
    by (auto simp: process_extracted_skills_def Let_def split: sum.splits)
  from process_mentions_conf_len [OF this, of k] show ?thesis
    by (simp add: conf_len_def role_title_credit_keeps)
qed

lemma process_extracted_skills_dates:
  assumes "process_extracted_skills parse mt ms st lvl months start_raw e t = Inr st'"
    and "case start_raw of None \<Rightarrow> True
         | Some s \<Rightarrow> (case parse s of None \<Rightarrow> True | Some d \<Rightarrow> \<not> date_lt e d)"
    and "\<forall>k. dates_ok (lookup_default (skill_map st) k)"
  shows "dates_ok (lookup_default (skill_map st') k)"
proof -
  let ?st1 = "st\<lparr>skill_map := role_title_credit t (skill_map st)\<rparr>"
  from assms(1) obtain start where run: "process_mentions mt lvl months start e ?st1 ms = Inr st'"
    and start: "start = None \<or> (\<exists>s. start_raw = Some s \<and> parse s = start)"
    by (auto simp: process_extracted_skills_def Let_def split: sum.splits option.splits if_splits)
  from start assms(2) have ok: "\<forall>s. start = Some s \<longrightarrow> \<not> date_lt e s"
    by (auto split: option.splits)
  have "dates_ok (lookup_default (skill_map ?st1) j) = dates_ok (lookup_default (skill_map st) j)"
    for j
    unfolding dates_ok_def by (simp add: role_title_credit_keeps split: option.splits)
  with assms(3) have "\<forall>k. dates_ok (lookup_default (skill_map ?st1) k)" by simp
  from process_mentions_dates [OF run ok this] show ?thesis .
qed

lemma sync_roles_conf_len:
  "sync_roles parse mt st roles = Inr st' \<Longrightarrow>
     conf_len st' k = conf_len st k + accepted_count mt k (concat (map role_mentions roles))"
proof (induction roles arbitrary: st)
  case Nil
  then show ?case by (simp add: accepted_count_def)
next
  case (Cons r roles)
  let ?t = "normalize_job_title (title r)"
  from Cons.prems obtain st1
    where 1: "process_extracted_skills parse mt (role_mentions r) st
             (infer_level_from_title ?t) (verified_duration r)
             (role_start_date_raw r) (role_end_date r) ?t = Inr st1"
      and 2: "sync_roles parse mt st1 roles = Inr st'"
    by (auto simp: Let_def split: sum.splits)
  from Cons.IH [OF 2] process_extracted_skills_conf_len [OF 1, of k] show ?case
    by (simp add: accepted_count_def)
qed

lemma sync_roles_dates:
  "sync_roles parse mt st roles = Inr st' \<Longrightarrow>
     list_all (role_dates_ok parse) roles \<Longrightarrow>
     \<forall>k. dates_ok (lookup_default (skill_map st) k) \<Longrightarrow>
     dates_ok (lookup_default (skill_map st') k)"
proof (induction roles arbitrary: st)
  case Nil
  then show ?case by simp
next
  case (Cons r roles)
  let ?t = "normalize_job_title (title r)"
  from Cons.prems(1) obtain st1
    where 1: "process_extracted_skills parse mt (role_mentions r) st
             (infer_level_from_title ?t) (verified_duration r)
             (role_start_date_raw r) (role_end_date r) ?t = Inr st1"
      and 2: "sync_roles parse mt st1 roles = Inr st'"
    by (auto simp: Let_def split: sum.splits)
  from Cons.prems(2) have "role_dates_ok parse r"
    and rest: "list_all (role_dates_ok parse) roles"
    by simp_all
  then have r: "case role_start_date_raw r of None \<Rightarrow> True
         | Some s \<Rightarrow> (case parse s of None \<Rightarrow> True | Some d \<Rightarrow> \<not> date_lt (role_end_date r) d)"
    by (simp add: role_dates_ok_def)
  have "\<forall>k. dates_ok (lookup_default (skill_map st1) k)"
    using process_extracted_skills_dates [OF 1 r Cons.prems(3)] by blast
  from Cons.IH [OF 2 rest this] show ?case .
qed


subsection \<open>Ingestion of example profiles\<close>

definition observed :: "py_error + agg_state \<Rightarrow> string \<Rightarrow> SkillMetrics option" where
  "observed r k = (case r of Inl e \<Rightarrow> None | Inr st \<Rightarrow> skill_map st k)"

definition class_list_after :: "py_error + agg_state \<Rightarrow> string list option" where
  "class_list_after r =
     (case r of Inl e \<Rightarrow> None | Inr st \<Rightarrow> Some (SkillMetrics_confidence_sources st))"

definition mt0 :: Matcher where
  "mt0 = \<lparr>master_skills = [language_java, framework_react], index = [],
            embed_fn = (\<lambda>t. [])\<rparr>"

definition java_in_skills :: ExtractedSkill where
  "java_in_skills = \<lparr>raw_name = ''Java'', es_source = ''skills_section'', es_confidence = 1\<rparr>"

definition reactjs_in_duties :: ExtractedSkill where
  "reactjs_in_duties =
     \<lparr>raw_name = ''ReactJS'', es_source = ''responsibility'', es_confidence = 1\<rparr>"

definition role_s1 :: CandidateRole where
  "role_s1 = \<lparr>title = ''Senior Java Developer'', verified_duration = 24,
       role_start_date_raw = Some ''2022-01-01'',
       role_end_date = \<lparr>year = 2024, month = 1, day = 1\<rparr>,
       role_extracted_skills = [java_in_skills]\<rparr>"

definition raw_future :: RawExperienceItem where
  "raw_future = \<lparr>job_title = ''Senior Java Developer'', start_date_raw = Some ''2026-03-01'',
       end_date_raw = Some ''Present'', responsibilities = [],
       extracted_skills = [java_in_skills]\<rparr>"

definition role_future :: CandidateRole where
  "role_future = \<lparr>title = ''Senior Java Developer'', verified_duration = - 2,
       role_start_date_raw = Some ''2026-03-01'',
       role_end_date = \<lparr>year = 2026, month = 1, day = 1\<rparr>,
       role_extracted_skills = [\<lparr>raw_name = ''java'', es_source = ''skills_section'',
                                  es_confidence = 1\<rparr>]\<rparr>"

lemma build_future:
  "build_professional_profile parse_iso [raw_future] default_ref_date = Inr [role_future]"
  by code_simp

lemma mentions_s1:
  "role_mentions role_s1 =
     [\<lparr>m_raw_name = ''java'', m_source = ''skills_section'', m_confidence = 1, m_context = []\<rparr>]"
  by code_simp

lemma mentions_future:
  "role_mentions role_future =
     [\<lparr>m_raw_name = ''java'', m_source = ''skills_section'', m_confidence = 1, m_context = []\<rparr>]"
  by code_simp

lemma match_java_plain:
  "normalize_and_match_skill ''java'' [language_java, framework_react] [] ef []
     = Inr (Some 1, Some ''language_java'', Some ''programming'', 1, ''exact'')"
proof -
  have n: "normalize_skill_text2 (normalize_text ''java'') = ''java''" by code_simp
  have c: "normalize_text [] = []" by code_simp
  have "spec_exact ''java'' language_java" by code_simp
  then have "first_hit (spec_exact ''java'') [language_java, framework_react] language_java"
    by (simp add: first_hit_Cons)
  from exact_loop_first [OF this, of "[]"]
  have "exact_loop ''java'' [] [language_java, framework_react]
          = Some (guarded language_java ''java'' [] 1 ''exact'')" by simp
  moreover have "passes_disambiguation language_java ''java'' []" by code_simp
  ultimately show ?thesis
    by (simp add: normalize_and_match_skill_def n c guarded_def matched_def language_java_def)
qed

lemma match_reactjs_plain:
  "normalize_and_match_skill ''reactjs'' [language_java, framework_react] [] ef []
     = Inr (Some 2, Some ''framework_react'', Some ''framework'', 0.95, ''alias'')"
proof -
  let ?ms = "[language_java, framework_react]"
  have n: "normalize_skill_text2 (normalize_text ''reactjs'') = ''reactjs''" by code_simp
  have c: "normalize_text [] = []" by code_simp
  have "list_all (\<lambda>s. \<not> spec_exact ''reactjs'' s) ?ms" by code_simp
  then have e: "exact_loop ''reactjs'' [] ?ms = None" by (rule exact_loop_none)
  have "\<not> spec_alias ''reactjs'' language_java" "spec_alias ''reactjs'' framework_react"
    by code_simp+
  then have "first_hit (spec_alias ''reactjs'') ?ms framework_react"
    by (simp add: first_hit_Cons)
  from alias_loop_first [OF this, of "[]"]
  have a: "alias_loop ''reactjs'' [] ?ms
          = Some (guarded framework_react ''reactjs'' [] 0.95 ''alias'')" by simp
  have "passes_disambiguation framework_react ''reactjs'' []"
    by (simp add: passes_disambiguation_def framework_react_def)
  with e a show ?thesis
    by (simp add: normalize_and_match_skill_def n c guarded_def matched_def framework_react_def)
qed

lemma title_senior_java:
  "normalize_job_title ''Senior Java Developer'' = ''senior java developer''"
  "infer_level_from_title ''senior java developer'' = senior"
  by code_simp+

lemma credit_senior_java:
  "role_title_credit ''senior java developer'' Map.empty =
     [''language_java'' \<mapsto> new_SkillMetrics\<lparr>has_presence := True,
                                              evidence_sources := [''role_title'']\<rparr>]"
proof -
  have "\<not> str_in ''dot net developer'' ''senior java developer''"
    "str_in ''java developer'' ''senior java developer''"
    "\<not> str_in ''python developer'' ''senior java developer''"
    "\<not> str_in ''frontend developer'' ''senior java developer''"
    "\<not> str_in ''backend developer'' ''senior java developer''"
    by code_simp+
  then show ?thesis
    by (simp add: role_title_credit_def ROLE_TITLE_SKILL_MAP_def title_credit_def
          lookup_default_def new_SkillMetrics_def)
qed

lemma parse_examples:
  "parse_iso ''2022-01-01'' = Some \<lparr>year = 2022, month = 1, day = 1\<rparr>"
  "parse_iso ''2026-03-01'' = Some \<lparr>year = 2026, month = 3, day = 1\<rparr>"
  by code_simp+

lemma role_fields:
  "title role_s1 = ''Senior Java Developer''" "verified_duration role_s1 = 24"
  "role_start_date_raw role_s1 = Some ''2022-01-01''"
  "role_end_date role_s1 = \<lparr>year = 2024, month = 1, day = 1\<rparr>"
  "title role_future = ''Senior Java Developer''" "verified_duration role_future = - 2"
  "role_start_date_raw role_future = Some ''2026-03-01''"
  "role_end_date role_future = \<lparr>year = 2026, month = 1, day = 1\<rparr>"
  by (simp_all add: role_s1_def role_future_def)

lemma sync_s1:
  "observed (sync_profile_to_master parse_iso mt0 [] [role_s1]) ''language_java'' =
     Some \<lparr>junior_months = 0, mid_months = 0, senior_months = 24,
           first_used = Some \<lparr>year = 2022, month = 1, day = 1\<rparr>,
           last_used = Some \<lparr>year = 2024, month = 1, day = 1\<rparr>,
           evidence_score = 1, total_months = 24, confidence_scores = [1],
           match_confidence = 1, evidence_sources = [''skills_section'', ''role_title''],
           max_evidence_strength = 2, normalization_confidence = 0, has_presence = True\<rparr>"
  by (simp add: observed_def sync_profile_to_master_def role_fields
        process_extracted_skills_def Let_def mentions_s1 title_senior_java credit_senior_java
        process_mention_def mt0_def match_java_plain lookup_default_def new_SkillMetrics_def
        SOURCE_EVIDENCE_WEIGHT_def EVIDENCE_STRENGTH_def parse_examples
        confidence_sources_def finish_def)


lemma sync_future:
  "observed (sync_profile_to_master parse_iso mt0 [] [role_future]) ''language_java'' =
     Some \<lparr>junior_months = 0, mid_months = 0, senior_months = - 2,
           first_used = Some \<lparr>year = 2026, month = 3, day = 1\<rparr>,
           last_used = Some \<lparr>year = 2026, month = 1, day = 1\<rparr>,
           evidence_score = 1, total_months = - 2, confidence_scores = [1],
           match_confidence = 1, evidence_sources = [''skills_section'', ''role_title''],
           max_evidence_strength = 2, normalization_confidence = 0, has_presence = True\<rparr>"
  by (simp add: observed_def sync_profile_to_master_def role_fields
        process_extracted_skills_def Let_def mentions_future title_senior_java
        credit_senior_java process_mention_def mt0_def match_java_plain lookup_default_def
        new_SkillMetrics_def SOURCE_EVIDENCE_WEIGHT_def EVIDENCE_STRENGTH_def parse_examples
        confidence_sources_def finish_def)

text \<open>
  C7. After an ingestion that completes, every accumulator has
  \<open>total_months = junior_months + mid_months + senior_months\<close>, and its
  \<open>confidence_scores\<close> has one entry for each mention, over all roles, that the matcher
  accepted for that skill. If every role starts no later than it ends, then
  \<open>first_used\<close> is not after \<open>last_used\<close> wherever both are set.
\<close>

theorem sync_profile_to_master_invariants:
  assumes "sync_profile_to_master parse mt class_list candidate_roles = Inr st"
    and "skill_map st k = Some acc"
  shows "total_months acc = junior_months acc + mid_months acc + senior_months acc
     \<and> length (confidence_scores acc) =
         accepted_count mt k (concat (map role_mentions candidate_roles))
     \<and> (list_all (role_dates_ok parse) candidate_roles \<longrightarrow>
         (case (first_used acc, last_used acc) of
            (Some f, Some l) \<Rightarrow> \<not> date_lt l f
          | _ \<Rightarrow> True))"
proof -
  let ?init = "\<lparr>skill_map = Map.empty, SkillMetrics_confidence_sources = class_list\<rparr>"
  from assms(1) obtain st0 where run: "sync_roles parse mt ?init candidate_roles = Inr st0"
    and st: "st = st0\<lparr>skill_map := map_option finish \<circ> skill_map st0\<rparr>"
    by (auto simp: sync_profile_to_master_def split: sum.splits)
  from st assms(2) obtain acc0 where acc0: "skill_map st0 k = Some acc0"
    and acc: "acc = finish acc0"
    by auto
  have look: "lookup_default (skill_map st0) k = acc0"
    using acc0 by (simp add: lookup_default_def)
  have "conf_len ?init k = 0"
    by (simp add: conf_len_def lookup_default_def new_SkillMetrics_def)
  with sync_roles_conf_len [OF run, of k] look
  have count: "length (confidence_scores acc0) =
      accepted_count mt k (concat (map role_mentions candidate_roles))"
    by (simp add: conf_len_def)
  have init_ok: "\<forall>j. dates_ok (lookup_default (skill_map ?init) j)"
    by (simp add: dates_ok_def lookup_default_def new_SkillMetrics_def)
  have dates: "list_all (role_dates_ok parse) candidate_roles \<Longrightarrow> dates_ok acc0"
    using sync_roles_dates [OF run _ init_ok, of k] look by simp
  show ?thesis
    using acc count dates
    by (auto simp: finish_def dates_ok_def split: option.splits)
qed

text \<open>
  C7 as the specification states it does not hold: a current role that starts after the
  reference date (2026-03-01, with the end \<open>Present\<close> resolved to 2026-01-01) gives its
  skill a first use after its last use.
\<close>

theorem sync_profile_to_master_dates_counterexample:
  "build_professional_profile parse_iso [raw_future] default_ref_date = Inr [role_future]
   \<and> observed (sync_profile_to_master parse_iso mt0 [] [role_future]) ''language_java'' =
       Some \<lparr>junior_months = 0, mid_months = 0, senior_months = - 2,
             first_used = Some \<lparr>year = 2026, month = 3, day = 1\<rparr>,
             last_used = Some \<lparr>year = 2026, month = 1, day = 1\<rparr>,
             evidence_score = 1, total_months = - 2, confidence_scores = [1],
             match_confidence = 1, evidence_sources = [''skills_section'', ''role_title''],
             max_evidence_strength = 2, normalization_confidence = 0, has_presence = True\<rparr>
   \<and> date_lt \<lparr>year = 2026, month = 1, day = 1\<rparr> \<lparr>year = 2026, month = 3, day = 1\<rparr>"
proof -
  have "date_lt \<lparr>year = 2026, month = 1, day = 1\<rparr> \<lparr>year = 2026, month = 3, day = 1\<rparr>"
    by code_simp
  with build_future sync_future show ?thesis by simp
qed

definition java_metrics :: SkillMetrics where
  "java_metrics =
     \<lparr>junior_months = 0, mid_months = 0, senior_months = 24,
      first_used = Some \<lparr>year = 2022, month = 1, day = 1\<rparr>,
      last_used = Some \<lparr>year = 2024, month = 1, day = 1\<rparr>,
      evidence_score = 1, total_months = 24, confidence_scores = [1],
      match_confidence = 1, evidence_sources = [''skills_section'', ''role_title''],
      max_evidence_strength = 2, normalization_confidence = 0, has_presence = True\<rparr>"

theorem sync_profile_to_master_invariants_witness:
  "observed (sync_profile_to_master parse_iso mt0 [] [role_s1]) ''language_java'' =
     Some java_metrics
   \<and> total_months java_metrics =
       junior_months java_metrics + mid_months java_metrics + senior_months java_metrics
   \<and> length (confidence_scores java_metrics) =
       accepted_count mt0 ''language_java'' (concat (map role_mentions [role_s1]))
   \<and> \<not> date_lt \<lparr>year = 2024, month = 1, day = 1\<rparr> \<lparr>year = 2022, month = 1, day = 1\<rparr>"
proof -
  have obs: "observed (sync_profile_to_master parse_iso mt0 [] [role_s1]) ''language_java'' =
     Some java_metrics"
    using sync_s1 by (simp add: java_metrics_def)
  then obtain st where run: "sync_profile_to_master parse_iso mt0 [] [role_s1] = Inr st"
    and k: "skill_map st ''language_java'' = Some java_metrics"
    by (cases "sync_profile_to_master parse_iso mt0 [] [role_s1]") (auto simp: observed_def)
  have roles: "list_all (role_dates_ok parse_iso) [role_s1]" by code_simp
  from sync_profile_to_master_invariants [OF run k] roles obs show ?thesis
    by (simp add: java_metrics_def)
qed


subsection \<open>The shared list of methods\<close>

text \<open>The state after a Java mention matched exactly, and after a ReactJS mention matched
  by alias in a later role.\<close>

definition st_java :: agg_state where
  "st_java = \<lparr>skill_map = [''language_java'' \<mapsto> java_metrics],
               SkillMetrics_confidence_sources = [''exact'']\<rparr>"

definition react_metrics :: SkillMetrics where
  "react_metrics =
     \<lparr>junior_months = 0, mid_months = 12, senior_months = 0,
      first_used = Some \<lparr>year = 2023, month = 1, day = 1\<rparr>,
      last_used = Some \<lparr>year = 2024, month = 1, day = 1\<rparr>,
      evidence_score = 0.7, total_months = 0, confidence_scores = [0.686],
      match_confidence = 0, evidence_sources = [''responsibility''],
      max_evidence_strength = 3, normalization_confidence = 0, has_presence = False\<rparr>"

definition st_both :: agg_state where
  "st_both = \<lparr>skill_map = [''language_java'' \<mapsto> java_metrics,
                             ''framework_react'' \<mapsto> react_metrics],
               SkillMetrics_confidence_sources = [''exact'', ''alias'']\<rparr>"

definition reactjs_mention :: mention where
  "reactjs_mention = \<lparr>m_raw_name = ''reactjs'', m_source = ''responsibility'',
                       m_confidence = 1, m_context = []\<rparr>"

lemma process_reactjs:
  "process_mention mt0 mid 12 (Some \<lparr>year = 2023, month = 1, day = 1\<rparr>)
       \<lparr>year = 2024, month = 1, day = 1\<rparr> st_java reactjs_mention = Inr st_both"
  by (simp add: process_mention_def mt0_def reactjs_mention_def match_reactjs_plain
        st_java_def st_both_def lookup_default_def new_SkillMetrics_def react_metrics_def
        SOURCE_EVIDENCE_WEIGHT_def EVIDENCE_STRENGTH_def confidence_sources_def Let_def)

lemma accepted_reactjs: "accepted_code mt0 reactjs_mention = Inr (Some ''framework_react'')"
  by (simp add: accepted_code_def mt0_def reactjs_mention_def match_reactjs_plain)

text \<open>
  C10. In the code the list is not per instance: a mention accepted for one skill appends
  its method to the \<open>confidence_sources\<close> that every instance reads, those of other
  skills included.
\<close>

theorem confidence_sources_shared:
  assumes "process_mention mt lvl months start end_date st m = Inr st'"
    and "accepted_code mt m = Inr (Some k)"
  shows "\<exists>method. \<forall>acc. confidence_sources st' acc = confidence_sources st acc @ [method]"
  using process_mention_hit [OF assms] by (auto simp: confidence_sources_def)

theorem confidence_sources_shared_witness:
  "skill_map st_java ''language_java'' = Some java_metrics
   \<and> skill_map st_both ''language_java'' = Some java_metrics
   \<and> confidence_sources st_java java_metrics = [''exact'']
   \<and> confidence_sources st_both java_metrics = [''exact'', ''alias'']
   \<and> confidence_sources st_both java_metrics \<noteq> confidence_sources st_java java_metrics
   \<and> resolve_normalization_method (confidence_sources st_both react_metrics) = ''exact''"
proof -
  from confidence_sources_shared [OF process_reactjs accepted_reactjs]
  obtain how where "confidence_sources st_both java_metrics =
      confidence_sources st_java java_metrics @ [how]"
    by blast
  then have "confidence_sources st_both java_metrics \<noteq> confidence_sources st_java java_metrics"
    by simp
  moreover have "resolve_normalization_method (confidence_sources st_both react_metrics)
      = ''exact''"
    by (simp add: confidence_sources_def st_both_def NORMALIZATION_PRIORITY_def)
  ultimately show ?thesis
    by (simp add: st_java_def st_both_def confidence_sources_def)
qed

section \<open>Scoring and ranking (Employer/MatchingEngine.py)\<close>

text \<open>Scores are floating-point numbers in the source and reals here; \<open>math.log\<close> raises
  \<open>ValueError\<close> outside its domain.\<close>

fun hint_value :: "SkillTypeHint \<Rightarrow> string" where
  "hint_value programming = ''programming''"
| "hint_value framework = ''framework''"
| "hint_value cloud = ''cloud''"
| "hint_value database = ''database''"
| "hint_value tool = ''tool''"
| "hint_value platform = ''platform''"
| "hint_value methodology = ''methodology''"
| "hint_value other = ''other''"

fun seniority_value :: "SeniorityLevel \<Rightarrow> string" where
  "seniority_value Junior = ''Junior''"
| "seniority_value Mid = ''Mid''"
| "seniority_value Senior = ''Senior''"
| "seniority_value Lead = ''Lead''"

fun domain_value :: "PrimaryDomain \<Rightarrow> string" where
  "domain_value Web = ''Web''"
| "domain_value Cloud = ''Cloud''"
| "domain_value AI = ''AI''"
| "domain_value Data = ''Data''"
| "domain_value Mobile = ''Mobile''"
| "domain_value DevOps = ''DevOps''"
| "domain_value Security = ''Security''"
| "domain_value Enterprise = ''Enterprise''"
| "domain_value Frontend = ''Frontend''"
| "domain_value Fullstack = ''Fullstack''"
| "domain_value QA = ''QA''"
| "domain_value Backend = ''Backend''"
| "domain_value General = ''General''"

text \<open>The dictionary both scoring functions build from the role weights of the domain
  and seniority of the profile (or seniority \<open>any\<close>): a later row replaces an earlier one
  of the same skill type.\<close>

definition skill_type_weights :: "Store \<Rightarrow> JobSkillProfile \<Rightarrow> (string \<rightharpoonup> real)" where
  "skill_type_weights store jd_profile =
     map_of (rev (map (\<lambda>r. (SkillType_col r, WeightMultiplier r))
       (filter (\<lambda>r. PrimaryDomain_col r = domain_value (primary_domain (job_metadata jd_profile))
                    \<and> (SeniorityLevel_col r
                           = seniority_value (seniority_level (job_metadata jd_profile))
                         \<or> SeniorityLevel_col r = ''any''))
          (RoleSkillTypeWeights store))))"

text \<open>\<open>jd_weight * skill_weight\<close> of a requirement; a category requirement is weighted
  as a framework.\<close>

definition composite_weight :: "(string \<rightharpoonup> real) \<Rightarrow> Requirement \<Rightarrow> real" where
  "composite_weight weights req =
     (let jd_weight = (if level_of req = hard then 1.0 else 0.4);
          skill_weight =
            (case weights (case req of SkillReq sr \<Rightarrow> hint_value (skill_type_hint sr)
                                     | CategoryReq cr \<Rightarrow> ''framework'') of
               None \<Rightarrow> 1.0
             | Some w \<Rightarrow> w)
      in jd_weight * skill_weight)"

fun max_score_loop :: "(string \<rightharpoonup> real) \<Rightarrow> real \<Rightarrow> Requirement list \<Rightarrow> real" where
  "max_score_loop weights max_score [] = max_score"
| "max_score_loop weights max_score (req # rest) =
     max_score_loop weights (max_score + composite_weight weights req) rest"

definition calculate_max_possible_score :: "Store \<Rightarrow> JobSkillProfile \<Rightarrow> real" where
  "calculate_max_possible_score store jd_profile =
     py_round (max_score_loop (skill_type_weights store jd_profile) 0.0
                 (requirements jd_profile)) 4"

text \<open>The rows of a candidate: its skills joined with the master skills.\<close>

record ScoreRow =
  r_TotalMonths :: int
  r_LastUsedDate :: "date option"
  r_MaxEvidenceStrength :: int
  r_NormalizationMethod :: string
  r_SkillCode :: string
  r_Category :: string

definition candidate_rows :: "Store \<Rightarrow> int \<Rightarrow> ScoreRow list" where
  "candidate_rows store candidate_id =
     concat (map (\<lambda>cs.
        map (\<lambda>ms. \<lparr>r_TotalMonths = TotalMonths cs, r_LastUsedDate = LastUsedDate cs,
                    r_MaxEvidenceStrength = MaxEvidenceStrength cs,
                    r_NormalizationMethod = NormalizationMethod cs,
                    r_SkillCode = SkillCode ms, r_Category = Category ms\<rparr>)
          (filter (\<lambda>ms. SkillID ms = MasterSkillID cs) (MasterSkills store)))
       (filter (\<lambda>cs. CandidateID cs = candidate_id) (CandidateSkills store)))"

text \<open>\<open>by_skill.get(skill_code)\<close>: the last row of the code; no code, no row.\<close>

definition by_skill :: "ScoreRow list \<Rightarrow> string option \<Rightarrow> ScoreRow option" where
  "by_skill rows code =
     (case code of None \<Rightarrow> None | Some c \<Rightarrow> find (\<lambda>r. r_SkillCode r = c) (rev rows))"

text \<open>\<open>max(matches, key=(TotalMonths, MaxEvidenceStrength))\<close>: the first greatest row.\<close>

definition row_less :: "ScoreRow \<Rightarrow> ScoreRow \<Rightarrow> bool" where
  "row_less a b =
     (r_TotalMonths a < r_TotalMonths b
      \<or> (r_TotalMonths a = r_TotalMonths b
          \<and> r_MaxEvidenceStrength a < r_MaxEvidenceStrength b))"

fun best_row :: "ScoreRow \<Rightarrow> ScoreRow list \<Rightarrow> ScoreRow" where
  "best_row best [] = best"
| "best_row best (r # rest) = best_row (if row_less best r then r else best) rest"

definition recency_of :: "date \<Rightarrow> date \<Rightarrow> real" where
  "recency_of today used =
     (let months_since = real_of_int (toordinal today - toordinal used) / 30 in
      if months_since \<le> 12 then 1.0
      else if months_since \<le> 36 then 0.8
      else if months_since \<le> 60 then 0.6 else 0.3)"

text \<open>The contribution of a matched row: \<open>x\<close> is the argument of the logarithm.\<close>

definition contribution :: "date \<Rightarrow> real \<Rightarrow> real \<Rightarrow> ScoreRow \<Rightarrow> py_error + real" where
  "contribution today weight x row =
     (if x \<le> 0 then Inl ValueError
      else
        let exp_factor = min 1.0 (ln x) in
        case r_LastUsedDate row of
          None \<Rightarrow> Inl TypeError
        | Some used \<Rightarrow>
            (let recency_factor = recency_of today used;
                 evidence_factor = min (real_of_int (r_MaxEvidenceStrength row) / 3.0) 1.0;
                 norm_penalty = (if r_NormalizationMethod row = ''vector'' then 0.85 else 1.0)
             in Inr (weight * exp_factor * recency_factor * evidence_factor * norm_penalty)))"

text \<open>What one requirement adds to \<open>total_score\<close>: nothing when the candidate has no row
  for it.\<close>

definition requirement_score ::
  "Engine \<Rightarrow> date \<Rightarrow> string \<Rightarrow> (string \<rightharpoonup> real) \<Rightarrow> ScoreRow list \<Rightarrow> Requirement
     \<Rightarrow> py_error + real" where
  "requirement_score eng today context_text weights rows req =
     (case req of
        SkillReq sr \<Rightarrow>
          (case normalize_and_match_skill (raw_skill sr) (master_skill_list eng)
                  (vector_index eng) (Some (get_embedding_cached eng)) context_text of
             Inl e \<Rightarrow> Inl e
           | Inr (sid, skill_code, rest) \<Rightarrow>
               (case by_skill rows skill_code of
                  None \<Rightarrow> Inr 0
                | Some row \<Rightarrow>
                    (case min_months sr of
                       None \<Rightarrow> Inl TypeError
                     | Some mm \<Rightarrow>
                         contribution today (composite_weight weights req)
                           (1 + real_of_int (r_TotalMonths row) / real_of_int (max mm 1))
                           row)))
      | CategoryReq cr \<Rightarrow>
          (case filter (\<lambda>r. r_Category r = category cr) rows of
             [] \<Rightarrow> Inr 0
           | m # matches \<Rightarrow>
               (let best = best_row m matches in
                contribution today (composite_weight weights req)
                  (1 + real_of_int (r_TotalMonths best)) best)))"

fun score_loop ::
  "Engine \<Rightarrow> date \<Rightarrow> string \<Rightarrow> (string \<rightharpoonup> real) \<Rightarrow> ScoreRow list \<Rightarrow> real
     \<Rightarrow> Requirement list \<Rightarrow> py_error + real" where
  "score_loop eng today context_text weights rows total_score [] = Inr total_score"
| "score_loop eng today context_text weights rows total_score (req # rest) =
     (case requirement_score eng today context_text weights rows req of
        Inl e \<Rightarrow> Inl e
      | Inr final \<Rightarrow>
          score_loop eng today context_text weights rows (total_score + final) rest)"

text \<open>\<open>_score_candidate\<close>, up to the score it returns (the breakdown it builds beside the
  score does not enter the score).\<close>

definition score_candidate ::
  "Engine \<Rightarrow> Store \<Rightarrow> date \<Rightarrow> int \<Rightarrow> JobSkillProfile \<Rightarrow> real \<Rightarrow> py_error + real" where
  "score_candidate eng store today candidate_id jd_profile max_score =
     (case score_loop eng today (role_context jd_profile)
             (skill_type_weights store jd_profile) (candidate_rows store candidate_id) 0.0
             (requirements jd_profile) of
        Inl e \<Rightarrow> Inl e
      | Inr total_score \<Rightarrow>
          Inr (py_round ((if max_score \<noteq> 0 then total_score / max_score else 0) * 100) 4))"

text \<open>\<open>rank_candidates\<close>, from the parsed and post-processed profile on. \<open>iteration\<close> is
  the order in which the set of eligible ids is iterated. A result carries the name, the
  id and the score.\<close>

record RankedResult =
  name :: string
  candidate_id :: int
  score :: real

fun score_all ::
  "Engine \<Rightarrow> Store \<Rightarrow> date \<Rightarrow> JobSkillProfile \<Rightarrow> real \<Rightarrow> RankedResult list \<Rightarrow> int list
     \<Rightarrow> py_error + RankedResult list" where
  "score_all eng store today jd_profile max_score ranked_results [] = Inr ranked_results"
| "score_all eng store today jd_profile max_score ranked_results (cid # rest) =
     (case score_candidate eng store today cid jd_profile max_score of
        Inl e \<Rightarrow> Inl e
      | Inr sc \<Rightarrow>
          (case map_of (Candidates store) cid of
             None \<Rightarrow> Inl KeyError
           | Some full_name \<Rightarrow>
               score_all eng store today jd_profile max_score
                 (ranked_results @ [\<lparr>name = full_name, candidate_id = cid,
                                      score = py_round sc 4\<rparr>]) rest))"

text \<open>\<open>xs[:limit]\<close>: a negative limit counts from the end.\<close>

definition slice_to :: "int \<Rightarrow> 'a list \<Rightarrow> 'a list" where
  "slice_to limit xs =
     (if limit \<ge> 0 then take (nat limit) xs else take (nat (int (length xs) + limit)) xs)"

definition rank_candidates ::
  "Engine \<Rightarrow> Store \<Rightarrow> date \<Rightarrow> (int set \<Rightarrow> int list) \<Rightarrow> JobSkillProfile \<Rightarrow> int
     \<Rightarrow> py_error + RankedResult list" where
  "rank_candidates eng store today iteration jd_profile limit =
     (case get_eligible_candidates eng store today jd_profile of
        Inl e \<Rightarrow> Inl e
      | Inr eligible_candidate_ids \<Rightarrow>
          if eligible_candidate_ids = {} then Inr []
          else
            (case score_all eng store today jd_profile
                    (calculate_max_possible_score store jd_profile) []
                    (iteration eligible_candidate_ids) of
               Inl e \<Rightarrow> Inl e
             | Inr ranked_results \<Rightarrow>
                 Inr (slice_to limit (sort_key (\<lambda>x. - score x) ranked_results))))"

end
